theory Spec2Isabelle
  imports Complex_Main "HOL-Library.Word"
begin

section \<open>Numbers, status codes and phase-space coordinates\<close>

text \<open>
  A C++ \<^verbatim>\<open>double\<close> is modelled by the value it denotes: a finite number, one of the two
  infinities, or NaN. The code studied here only compares, negates and copies doubles and
  asks whether they are finite, and on these operations a double behaves as its value
  does. Comparisons follow IEEE 754: every ordered comparison with NaN is false, and NaN
  differs from everything, itself included.
\<close>

datatype dbl = Fin real | PInf | NInf | NaN

fun isfinite :: "dbl \<Rightarrow> bool" where
  "isfinite (Fin v) = True"
| "isfinite PInf = False"
| "isfinite NInf = False"
| "isfinite NaN = False"

fun dbl_less :: "dbl \<Rightarrow> dbl \<Rightarrow> bool" where
  "dbl_less (Fin a) (Fin b) = (a < b)"
| "dbl_less (Fin a) PInf = True"
| "dbl_less NInf (Fin b) = True"
| "dbl_less NInf PInf = True"
| "dbl_less a b = False"

definition dbl_greater :: "dbl \<Rightarrow> dbl \<Rightarrow> bool" where
  "dbl_greater a b = dbl_less b a"

definition dbl_ne :: "dbl \<Rightarrow> dbl \<Rightarrow> bool" where
  "dbl_ne a b = (a = NaN \<or> b = NaN \<or> a \<noteq> b)"

fun dbl_neg :: "dbl \<Rightarrow> dbl" where
  "dbl_neg (Fin v) = Fin (- v)"
| "dbl_neg PInf = NInf"
| "dbl_neg NInf = PInf"
| "dbl_neg NaN = NaN"

definition DBL_MAX :: dbl where
  "DBL_MAX = Fin ((2 - 1 / 2 ^ 52) * 2 ^ 1023)"

text \<open>
  Modelled from the spec: \<^verbatim>\<open>auxiliary.h\<close> is not among the sources. The status
  enumeration is the one of the spec's section 7, the planes are the three values
  \<^verbatim>\<open>Plane::x\<close>, \<^verbatim>\<open>Plane::y\<close> and \<^verbatim>\<open>Plane::no_plane\<close> that \<^verbatim>\<open>tracking.h\<close> uses.
\<close>

datatype Status =
  success
| passmethod_not_defined
| passmethod_not_implemented
| particle_lost
| file_not_found
| flat_file_error
| kicktable_out_of_range
| findorbit_not_converged

datatype Plane = Plane_no_plane | Plane_x | Plane_y

record Pos =
  rx :: dbl
  px :: dbl
  ry :: dbl
  py :: dbl
  de :: dbl
  dl :: dbl

definition nan_pos :: Pos where
  "nan_pos = \<lparr>rx = NaN, px = NaN, ry = NaN, py = NaN, de = NaN, dl = NaN\<rparr>"

section \<open>Elements and accelerators\<close>

text \<open>
  The class \<^verbatim>\<open>Element\<close> of \<^verbatim>\<open>elements.h\<close>, field by field. The field \<^verbatim>\<open>length\<close> is
  \<open>length_el\<close> here. The type \<open>'k\<close> stands for \<^verbatim>\<open>Kicktable\<close>, whose declaration is not
  among the sources; the pointer \<^verbatim>\<open>kicktable\<close> is \<open>None\<close> for \<^verbatim>\<open>nullptr\<close> and otherwise holds
  the table it points to. The arrays \<^verbatim>\<open>t_in\<close>, \<^verbatim>\<open>t_out\<close> (6 doubles) and \<^verbatim>\<open>r_in\<close>,
  \<^verbatim>\<open>r_out\<close> (36 doubles, row by row) are lists.
\<close>

record 'k Element =
  fam_name :: string
  pass_method :: int
  length_el :: dbl
  nr_steps :: int
  hmin :: dbl
  hmax :: dbl
  vmin :: dbl
  vmax :: dbl
  hkick :: dbl
  vkick :: dbl
  angle :: dbl
  angle_in :: dbl
  angle_out :: dbl
  gap :: dbl
  fint_in :: dbl
  fint_out :: dbl
  thin_KL :: dbl
  thin_SL :: dbl
  frequency :: dbl
  voltage :: dbl
  polynom_a :: "dbl list"
  polynom_b :: "dbl list"
  kicktable :: "'k option"
  t_in :: "dbl list"
  t_out :: "dbl list"
  r_in :: "dbl list"
  r_out :: "dbl list"

text \<open>
  Modelled from the spec: \<^verbatim>\<open>accelerator.h\<close> is not among the sources. The fields are those
  of the spec's section 3 that the sources read and write; the registry of kicktables is a
  list of tables.
\<close>

record 'k Accelerator =
  energy :: dbl
  cavity_on :: bool
  radiation_on :: bool
  vchamber_on :: bool
  harmonic_number :: int
  lattice :: "'k Element list"
  kicktables :: "'k list"

text \<open>
  Modelled from the spec: the enumeration \<^verbatim>\<open>PassMethod\<close> and the table \<^verbatim>\<open>pm_dict\<close> of
  \<^verbatim>\<open>auxiliary.h\<close> are not among the sources. The tags are numbered in the order in which
  the spec's section 6.1 lists the names, which is also the order of the cases of
  \<^verbatim>\<open>track_elementpass\<close>; \<^verbatim>\<open>pm_nr_pms\<close> is their number.
\<close>

definition PassMethod_pm_identity_pass :: int where "PassMethod_pm_identity_pass = 0"
definition PassMethod_pm_drift_pass :: int where "PassMethod_pm_drift_pass = 1"
definition PassMethod_pm_str_mpole_symplectic4_pass :: int where "PassMethod_pm_str_mpole_symplectic4_pass = 2"
definition PassMethod_pm_bnd_mpole_symplectic4_pass :: int where "PassMethod_pm_bnd_mpole_symplectic4_pass = 3"
definition PassMethod_pm_corrector_pass :: int where "PassMethod_pm_corrector_pass = 4"
definition PassMethod_pm_cavity_pass :: int where "PassMethod_pm_cavity_pass = 5"
definition PassMethod_pm_thinquad_pass :: int where "PassMethod_pm_thinquad_pass = 6"
definition PassMethod_pm_thinsext_pass :: int where "PassMethod_pm_thinsext_pass = 7"
definition PassMethod_pm_kicktable_pass :: int where "PassMethod_pm_kicktable_pass = 8"
definition PassMethod_pm_nr_pms :: nat where "PassMethod_pm_nr_pms = 9"

definition pm_dict :: "string list" where
  "pm_dict = [''identity_pass'', ''drift_pass'', ''str_mpole_symplectic4_pass'',
     ''bnd_mpole_symplectic4_pass'', ''corrector_pass'', ''cavity_pass'', ''thinquad_pass'',
     ''thinsext_pass'', ''kicktable_pass'']"

section \<open>The tracker\<close>

text \<open>
  The pass methods of \<^verbatim>\<open>passmethods.h\<close> are not among the sources, so the tracker takes
  them as a parameter: a pass method receives the coordinates, the element and the
  accelerator and answers with a status and the coordinates it leaves in place.
\<close>

type_synonym 'k passmethod = "Pos \<Rightarrow> 'k Element \<Rightarrow> 'k Accelerator \<Rightarrow> Status \<times> Pos"

record 'k passmethods =
  pm_identity_pass :: "'k passmethod"
  pm_drift_pass :: "'k passmethod"
  pm_str_mpole_symplectic4_pass :: "'k passmethod"
  pm_bnd_mpole_symplectic4_pass :: "'k passmethod"
  pm_corrector_pass :: "'k passmethod"
  pm_cavity_pass :: "'k passmethod"
  pm_thinquad_pass :: "'k passmethod"
  pm_thinsext_pass :: "'k passmethod"
  pm_kicktable_pass :: "'k passmethod"

definition track_elementpass ::
  "'k passmethods \<Rightarrow> 'k Element \<Rightarrow> Pos \<Rightarrow> 'k Accelerator \<Rightarrow> Status \<times> Pos" where
  "track_elementpass pms el orig_pos accelerator =
     (if pass_method el = PassMethod_pm_identity_pass then pm_identity_pass pms orig_pos el accelerator
      else if pass_method el = PassMethod_pm_drift_pass then pm_drift_pass pms orig_pos el accelerator
      else if pass_method el = PassMethod_pm_str_mpole_symplectic4_pass
        then pm_str_mpole_symplectic4_pass pms orig_pos el accelerator
      else if pass_method el = PassMethod_pm_bnd_mpole_symplectic4_pass
        then pm_bnd_mpole_symplectic4_pass pms orig_pos el accelerator
      else if pass_method el = PassMethod_pm_corrector_pass then pm_corrector_pass pms orig_pos el accelerator
      else if pass_method el = PassMethod_pm_cavity_pass then pm_cavity_pass pms orig_pos el accelerator
      else if pass_method el = PassMethod_pm_thinquad_pass then pm_thinquad_pass pms orig_pos el accelerator
      else if pass_method el = PassMethod_pm_thinsext_pass then pm_thinsext_pass pms orig_pos el accelerator
      else if pass_method el = PassMethod_pm_kicktable_pass then pm_kicktable_pass pms orig_pos el accelerator
      else (passmethod_not_defined, orig_pos))"

subsection \<open>Tracking along a line\<close>

text \<open>
  The arguments that \<^verbatim>\<open>track_linepass\<close> receives by reference and updates: the particle's
  coordinates, the output vector, the index of the current element and the plane of loss.
\<close>

record track_state =
  orig_pos :: Pos
  pos :: "Pos list"
  element_offset :: nat
  lost_plane :: Plane

text \<open>The two conditions of the loss check, lines 126 to 129 and 134 to 137.\<close>

definition lost_x :: "'k Accelerator \<Rightarrow> 'k Element \<Rightarrow> Pos \<Rightarrow> bool" where
  "lost_x accelerator element p =
     ((\<not> isfinite (rx p)) \<or>
      (vchamber_on accelerator \<and>
       (dbl_less (rx p) (hmin element) \<or> dbl_greater (rx p) (hmax element))))"

definition lost_y :: "'k Accelerator \<Rightarrow> 'k Element \<Rightarrow> Pos \<Rightarrow> bool" where
  "lost_y accelerator element p =
     ((\<not> isfinite (ry p)) \<or>
      (vchamber_on accelerator \<and>
       (dbl_less (ry p) (vmin element) \<or> dbl_greater (ry p) (vmax element))))"

text \<open>
  One run of the body of the main loop, at loop index \<open>i\<close>. The answer is \<open>None\<close> where
  the C++ reads or writes a vector out of range (\<^verbatim>\<open>line[element_offset]\<close> with an offset
  that is no index of the lattice, \<^verbatim>\<open>pos[i]\<close> beyond the end of \<^verbatim>\<open>pos\<close>), \<open>Inl\<close> with the
  status and the arguments as they stand where the body returns from the function, and
  \<open>Inr\<close> where the loop goes on. The status declared inside the loop is the one of the
  pass method. The offset is an \<^verbatim>\<open>unsigned int\<close> and the loop counter an \<^verbatim>\<open>int\<close>; both stay
  below the number of elements wherever the body gets past its reads, so they are natural
  numbers here and nothing wraps around.
\<close>

definition linepass_body ::
  "'k passmethods \<Rightarrow> 'k Accelerator \<Rightarrow> bool \<Rightarrow> nat \<Rightarrow> ('a track_state_scheme) \<Rightarrow>
     ((Status \<times> 'a track_state_scheme) + 'a track_state_scheme) option" where
  "linepass_body pms accelerator trajectory i st =
     (let line = lattice accelerator; nr_elements = length line in
      if element_offset st \<ge> length line then None
      else if trajectory \<and> i \<ge> length (pos st) then None
      else
        let element = line ! element_offset st;
            st1 = (if trajectory then st\<lparr>pos := (pos st)[i := orig_pos st]\<rparr> else st);
            (status, p) = track_elementpass pms element (orig_pos st1) accelerator;
            st2 = st1\<lparr>orig_pos := p\<rparr>
        in
          if lost_x accelerator element p then
            Some (Inl (if status = success then particle_lost else status,
                       st2\<lparr>pos := pos st2 @ [nan_pos], lost_plane := Plane_x\<rparr>))
          else if lost_y accelerator element p then
            Some (Inl (if status = success then particle_lost else status,
                       st2\<lparr>pos := pos st2 @ [nan_pos], lost_plane := Plane_y\<rparr>))
          else if status \<noteq> success then Some (Inl (status, st2))
          else Some (Inr (st2\<lparr>element_offset := (element_offset st2 + 1) mod nr_elements\<rparr>)))"

text \<open>
  The main loop with \<open>n\<close> iterations to go, the next one at index \<open>i\<close>, followed by the
  code after the loop: the status returned there is the one declared at the top of the
  function, which is never assigned.
\<close>

fun linepass_loop ::
  "'k passmethods \<Rightarrow> 'k Accelerator \<Rightarrow> bool \<Rightarrow> nat \<Rightarrow> nat \<Rightarrow> ('a track_state_scheme) \<Rightarrow>
     (Status \<times> 'a track_state_scheme) option" where
  "linepass_loop pms accelerator trajectory i 0 st =
     Some (success, st\<lparr>lost_plane := Plane_no_plane, pos := pos st @ [orig_pos st]\<rparr>)"
| "linepass_loop pms accelerator trajectory i (Suc n) st =
     (case linepass_body pms accelerator trajectory i st of
        None \<Rightarrow> None
      | Some (Inl r) \<Rightarrow> Some r
      | Some (Inr st') \<Rightarrow> linepass_loop pms accelerator trajectory (Suc i) n st')"

text \<open>The loop that fills the output with NaN coordinates before the walk, lines 110 to 114.\<close>

definition linepass_prefill :: "'k Accelerator \<Rightarrow> bool \<Rightarrow> ('a track_state_scheme) \<Rightarrow> 'a track_state_scheme" where
  "linepass_prefill accelerator trajectory st =
     (let nr_elements = length (lattice accelerator) in
      if trajectory then st\<lparr>pos := pos st @ replicate nr_elements nan_pos\<rparr> else st)"

definition track_linepass ::
  "'k passmethods \<Rightarrow> 'k Accelerator \<Rightarrow> bool \<Rightarrow> ('a track_state_scheme) \<Rightarrow>
     (Status \<times> 'a track_state_scheme) option" where
  "track_linepass pms accelerator trajectory st =
     linepass_loop pms accelerator trajectory 0 (length (lattice accelerator))
       (linepass_prefill accelerator trajectory st)"

text \<open>
  To speak of the element that the walk has reached: \<open>linepass_at \<dots> k st\<close> is the state of
  the arguments when the main loop starts its iteration \<open>k\<close>, provided the \<open>k\<close> iterations
  before it all went on to the next element.
\<close>

fun linepass_upto ::
  "'k passmethods \<Rightarrow> 'k Accelerator \<Rightarrow> bool \<Rightarrow> nat \<Rightarrow> nat \<Rightarrow> ('a track_state_scheme) \<Rightarrow>
     'a track_state_scheme option" where
  "linepass_upto pms accelerator trajectory i 0 st = Some st"
| "linepass_upto pms accelerator trajectory i (Suc k) st =
     (case linepass_body pms accelerator trajectory i st of
        Some (Inr st') \<Rightarrow> linepass_upto pms accelerator trajectory (Suc i) k st'
      | _ \<Rightarrow> None)"

definition linepass_at ::
  "'k passmethods \<Rightarrow> 'k Accelerator \<Rightarrow> bool \<Rightarrow> nat \<Rightarrow> ('a track_state_scheme) \<Rightarrow>
     'a track_state_scheme option" where
  "linepass_at pms accelerator trajectory k st =
     linepass_upto pms accelerator trajectory 0 k (linepass_prefill accelerator trajectory st)"

text \<open>The output vector once the entrance of the element of iteration \<open>i\<close> is recorded, line 121.\<close>

definition entrance_recorded :: "bool \<Rightarrow> nat \<Rightarrow> ('a track_state_scheme) \<Rightarrow> Pos list" where
  "entrance_recorded trajectory i st = (if trajectory then (pos st)[i := orig_pos st] else pos st)"

text \<open>
  The particle is lost at the element at which the state stands: the coordinates that the
  pass method leaves fail the horizontal or the vertical test.
\<close>

definition lost_after_pass :: "'k passmethods \<Rightarrow> 'k Accelerator \<Rightarrow> ('a track_state_scheme) \<Rightarrow> bool" where
  "lost_after_pass pms accelerator st =
     (let element = lattice accelerator ! element_offset st;
          p = snd (track_elementpass pms element (orig_pos st) accelerator)
      in lost_x accelerator element p \<or> lost_y accelerator element p)"

subsection \<open>Tracking around a ring\<close>

text \<open>
  \<^verbatim>\<open>track_ringpass\<close> has the arguments of \<^verbatim>\<open>track_linepass\<close> and the turn counter
  \<^verbatim>\<open>lost_turn\<close>. Each turn tracks the line into the local vector \<^verbatim>\<open>final_pos\<close>, which is
  the argument \<open>final_pos\<close> of the loop below.
\<close>

record ring_state = track_state +
  lost_turn :: nat

text \<open>
  One turn, the body of the loop of \<^verbatim>\<open>track_ringpass\<close>: \<open>Inl\<close> where the function returns,
  \<open>Inr\<close> with the vector \<^verbatim>\<open>final_pos\<close> and the arguments where the loop goes on to its
  increment.
\<close>

definition ringpass_body ::
  "'k passmethods \<Rightarrow> 'k Accelerator \<Rightarrow> bool \<Rightarrow> Pos list \<Rightarrow> ring_state \<Rightarrow>
     ((Status \<times> ring_state) + (Pos list \<times> ring_state)) option" where
  "ringpass_body pms accelerator trajectory final_pos st =
     (case track_linepass pms accelerator False (st\<lparr>pos := final_pos\<rparr>) of
        None \<Rightarrow> None
      | Some (status, st1) \<Rightarrow>
          let st2 = st1\<lparr>pos := pos st\<rparr> in
          if status \<noteq> success then Some (Inl (status, st2))
          else Some (Inr (pos st1,
                 if trajectory then st2\<lparr>pos := pos st2 @ [orig_pos st2]\<rparr> else st2)))"

fun ringpass_loop ::
  "'k passmethods \<Rightarrow> 'k Accelerator \<Rightarrow> bool \<Rightarrow> nat \<Rightarrow> Pos list \<Rightarrow> ring_state \<Rightarrow>
     (Status \<times> ring_state) option" where
  "ringpass_loop pms accelerator trajectory 0 final_pos st =
     Some (success, if \<not> trajectory then st\<lparr>pos := pos st @ [orig_pos st]\<rparr> else st)"
| "ringpass_loop pms accelerator trajectory (Suc n) final_pos st =
     (case ringpass_body pms accelerator trajectory final_pos st of
        None \<Rightarrow> None
      | Some (Inl r) \<Rightarrow> Some r
      | Some (Inr (final_pos', st')) \<Rightarrow>
          ringpass_loop pms accelerator trajectory n final_pos' (st'\<lparr>lost_turn := lost_turn st' + 1\<rparr>))"

definition track_ringpass ::
  "'k passmethods \<Rightarrow> 'k Accelerator \<Rightarrow> nat \<Rightarrow> bool \<Rightarrow> ring_state \<Rightarrow>
     (Status \<times> ring_state) option" where
  "track_ringpass pms accelerator nr_turns trajectory st =
     ringpass_loop pms accelerator trajectory nr_turns [] (st\<lparr>lost_turn := 0\<rparr>)"

text \<open>
  \<open>ringpass_at \<dots> t st\<close> is the vector \<^verbatim>\<open>final_pos\<close> and the state of the arguments when the
  loop of \<^verbatim>\<open>track_ringpass\<close> starts turn \<open>t\<close>, provided the \<open>t\<close> turns before it succeeded.
\<close>

fun ringpass_upto ::
  "'k passmethods \<Rightarrow> 'k Accelerator \<Rightarrow> bool \<Rightarrow> nat \<Rightarrow> Pos list \<Rightarrow> ring_state \<Rightarrow>
     (Pos list \<times> ring_state) option" where
  "ringpass_upto pms accelerator trajectory 0 final_pos st = Some (final_pos, st)"
| "ringpass_upto pms accelerator trajectory (Suc t) final_pos st =
     (case ringpass_body pms accelerator trajectory final_pos st of
        Some (Inr (final_pos', st')) \<Rightarrow>
          ringpass_upto pms accelerator trajectory t final_pos' (st'\<lparr>lost_turn := lost_turn st' + 1\<rparr>)
      | _ \<Rightarrow> None)"

definition ringpass_at ::
  "'k passmethods \<Rightarrow> 'k Accelerator \<Rightarrow> bool \<Rightarrow> nat \<Rightarrow> ring_state \<Rightarrow> (Pos list \<times> ring_state) option" where
  "ringpass_at pms accelerator trajectory t st =
     ringpass_upto pms accelerator trajectory t [] (st\<lparr>lost_turn := 0\<rparr>)"

section \<open>Elements: construction\<close>

text \<open>
  The constructor \<^verbatim>\<open>Element(fam_name_, length_)\<close>: the default member initialisers of
  \<^verbatim>\<open>elements.h\<close>, zero translations and unit matrices. \<^verbatim>\<open>default_polynom\<close> is a vector of
  three zeros.
\<close>

definition default_polynom :: "dbl list" where
  "default_polynom = replicate 3 (Fin 0)"

definition unit_matrix :: "dbl list" where
  "unit_matrix = concat (map (\<lambda>i. map (\<lambda>j. if i = j then Fin 1 else Fin 0) [0..<6]) [0..<(6::nat)])"

definition Element_init :: "string \<Rightarrow> dbl \<Rightarrow> 'k Element" where
  "Element_init fam_name' length' =
     \<lparr>fam_name = fam_name', pass_method = PassMethod_pm_drift_pass, length_el = length',
      nr_steps = 1, hmin = dbl_neg DBL_MAX, hmax = DBL_MAX, vmin = dbl_neg DBL_MAX,
      vmax = DBL_MAX, hkick = Fin 0, vkick = Fin 0, angle = Fin 0, angle_in = Fin 0,
      angle_out = Fin 0, gap = Fin 0, fint_in = Fin 0, fint_out = Fin 0, thin_KL = Fin 0,
      thin_SL = Fin 0, frequency = Fin 0, voltage = Fin 0, polynom_a = default_polynom,
      polynom_b = default_polynom, kicktable = None, t_in = replicate 6 (Fin 0),
      t_out = replicate 6 (Fin 0), r_in = unit_matrix, r_out = unit_matrix\<rparr>"

definition initialize_marker :: "'k Element \<Rightarrow> 'k Element" where
  "initialize_marker element = element\<lparr>pass_method := PassMethod_pm_identity_pass\<rparr>"

definition Element_marker :: "string \<Rightarrow> 'k Element" where
  "Element_marker fam_name' = initialize_marker (Element_init fam_name' (Fin 0))"

definition initialize_drift :: "'k Element \<Rightarrow> 'k Element" where
  "initialize_drift element = element\<lparr>pass_method := PassMethod_pm_drift_pass\<rparr>"

definition Element_drift :: "string \<Rightarrow> dbl \<Rightarrow> 'k Element" where
  "Element_drift fam_name' length' = initialize_drift (Element_init fam_name' length')"



section \<open>Elements: pass-method names and comparison\<close>

text \<open>
  The search loop of \<^verbatim>\<open>set_pass_method\<close> and of the flat-file reader: the index of the
  first entry of the table equal to the name, counted from \<open>i\<close>, or \<open>None\<close> when the loop
  runs off the end of the table.
\<close>

fun pm_search :: "string list \<Rightarrow> string \<Rightarrow> nat \<Rightarrow> nat option" where
  "pm_search [] name i = None"
| "pm_search (d # ds) name i = (if d = name then Some i else pm_search ds name (Suc i))"

definition set_pass_method :: "string \<Rightarrow> 'k Element \<Rightarrow> 'k Element" where
  "set_pass_method pass_method' e =
     (case pm_search pm_dict pass_method' 0 of
        Some i \<Rightarrow> e\<lparr>pass_method := int i\<rparr>
      | None \<Rightarrow> e)"

text \<open>
  \<^verbatim>\<open>operator!=\<close> of two \<^verbatim>\<open>std::vector\<close> of doubles: the sizes differ or two entries at the same
  place do. The loops over the arrays \<^verbatim>\<open>t_in\<close>, \<^verbatim>\<open>t_out\<close>, \<^verbatim>\<open>r_in\<close> and \<^verbatim>\<open>r_out\<close> look for
  two entries at the same place that differ; the arrays of one field have the same size.
\<close>

definition array_ne :: "dbl list \<Rightarrow> dbl list \<Rightarrow> bool" where
  "array_ne a b = list_ex (\<lambda>(u, v). dbl_ne u v) (zip a b)"

definition vector_ne :: "dbl list \<Rightarrow> dbl list \<Rightarrow> bool" where
  "vector_ne a b = (length a \<noteq> length b \<or> array_ne a b)"

text \<open>
  \<^verbatim>\<open>Element::operator==\<close>. The argument \<open>same_object\<close> is the outcome of the pointer test
  \<^verbatim>\<open>this == &o\<close>, and \<open>kicktable_ne\<close> is \<^verbatim>\<open>operator!=\<close> of \<^verbatim>\<open>Kicktable\<close>, which is not among
  the sources.
\<close>

definition Element_eq :: "('k \<Rightarrow> 'k \<Rightarrow> bool) \<Rightarrow> bool \<Rightarrow> 'k Element \<Rightarrow> 'k Element \<Rightarrow> bool" where
  "Element_eq kicktable_ne same_object this other =
     (if same_object then True
      else if fam_name this \<noteq> fam_name other then False
      else if pass_method this \<noteq> pass_method other then False
      else if dbl_ne (length_el this) (length_el other) then False
      else if dbl_ne (hmin this) (hmin other) then False
      else if dbl_ne (hmax this) (hmax other) then False
      else if dbl_ne (vmin this) (vmin other) then False
      else if dbl_ne (vmax this) (vmax other) then False
      else if nr_steps this \<noteq> nr_steps other then False
      else if pass_method this = PassMethod_pm_drift_pass \<or>
              pass_method this = PassMethod_pm_identity_pass then True
      else if dbl_ne (hkick this) (hkick other) then False
      else if dbl_ne (vkick this) (vkick other) then False
      else if dbl_ne (angle this) (angle other) then False
      else if dbl_ne (angle_in this) (angle_in other) then False
      else if dbl_ne (angle_out this) (angle_out other) then False
      else if dbl_ne (gap this) (gap other) then False
      else if dbl_ne (fint_in this) (fint_in other) then False
      else if dbl_ne (fint_out this) (fint_out other) then False
      else if dbl_ne (thin_KL this) (thin_KL other) then False
      else if dbl_ne (thin_SL this) (thin_SL other) then False
      else if dbl_ne (frequency this) (frequency other) then False
      else if dbl_ne (voltage this) (voltage other) then False
      else if vector_ne (polynom_a this) (polynom_a other) then False
      else if vector_ne (polynom_b this) (polynom_b other) then False
      else if array_ne (t_in this) (t_in other) \<or> array_ne (t_out this) (t_out other) then False
      else if array_ne (r_in this) (r_in other) \<or> array_ne (r_out this) (r_out other) then False
      else
        (case (kicktable this, kicktable other) of
           (Some a, None) \<Rightarrow> False
         | (None, Some b) \<Rightarrow> False
         | (Some a, Some b) \<Rightarrow> \<not> kicktable_ne a b
         | (None, None) \<Rightarrow> True))"

section \<open>Flat files\<close>

text \<open>
  A flat file is modelled by what the stream extractions of the reader get from each of
  its lines: the first word of the line selects the constructor, the words after it are
  its arguments, already read as the number, the string or the sequence of numbers that
  the reader extracts. The words themselves, and the conversion between doubles and their
  seventeen-digit decimal form, are the business of the stream library and are not
  modelled. A line that is a comment starts with \<^verbatim>\<open>#\<close>; a header line starts with \<^verbatim>\<open>%\<close>; a
  line of \<^verbatim>\<open>polynom_a\<close> or \<^verbatim>\<open>polynom_b\<close> carries the pairs of order and value that its
  reading loop collects, the orders being \<^verbatim>\<open>unsigned int\<close>, words of 32 bits; a line of
  \<^verbatim>\<open>t_in\<close> carries the numbers read into the array, a line of the rows of \<^verbatim>\<open>r_in\<close> and \<^verbatim>\<open>r_out\<close> the index of the row (\<^verbatim>\<open>rx\<close> is 0, \<^verbatim>\<open>dl\<close>
  is 5) and its numbers; any other line carries its length in characters.
\<close>

datatype flat_line =
    Comment_line
  | Header_energy dbl
  | Header_harmonic_number int
  | Header_cavity_on string
  | Header_radiation_on string
  | Header_vchamber_on string
  | Header_other
  | Key_fam_name string
  | Key_length dbl
  | Key_hmin dbl
  | Key_hmax dbl
  | Key_vmin dbl
  | Key_vmax dbl
  | Key_hkick dbl
  | Key_vkick dbl
  | Key_nr_steps int
  | Key_angle dbl
  | Key_gap dbl
  | Key_fint_in dbl
  | Key_fint_out dbl
  | Key_voltage dbl
  | Key_frequency dbl
  | Key_angle_in dbl
  | Key_angle_out dbl
  | Key_t_in "dbl list"
  | Key_t_out "dbl list"
  | Key_r_in nat "dbl list"
  | Key_r_out nat "dbl list"
  | Key_pass_method string
  | Key_polynom_a "(32 word \<times> dbl) list"
  | Key_polynom_b "(32 word \<times> dbl) list"
  | Other_line nat

subsection \<open>Auxiliary functions\<close>

definition read_boolean_string :: "string \<Rightarrow> bool" where
  "read_boolean_string s = (if s = ''true'' then True else False)"

definition get_boolean_string :: "bool \<Rightarrow> string" where
  "get_boolean_string v = (if v then ''true'' else ''false'')"

text \<open>\<^verbatim>\<open>std::vector::resize(n, v)\<close>.\<close>

definition vector_resize :: "nat \<Rightarrow> 'a \<Rightarrow> 'a list \<Rightarrow> 'a list" where
  "vector_resize n v xs = take n xs @ replicate (n - length xs) v"

definition synchronize_polynomials :: "'k Element \<Rightarrow> 'k Element" where
  "synchronize_polynomials e =
     (let size' = (if length (polynom_a e) > length (polynom_b e) then length (polynom_a e)
                   else length (polynom_b e))
      in e\<lparr>polynom_a := vector_resize size' (Fin 0) (polynom_a e),
            polynom_b := vector_resize size' (Fin 0) (polynom_b e)\<rparr>)"

text \<open>
  The loop that stores the values of a line of \<^verbatim>\<open>polynom_a\<close> or \<^verbatim>\<open>polynom_b\<close> at their orders,
  in the order of the line. A write beyond the end of the polynomial is out of range, and
  the answer is \<open>None\<close>.
\<close>

fun store_polynom :: "(32 word \<times> dbl) list \<Rightarrow> dbl list \<Rightarrow> dbl list option" where
  "store_polynom [] q = Some q"
| "store_polynom ((ord, m) # ps) q =
     (if unat ord < length q then store_polynom ps (q[unat ord := m]) else None)"

text \<open>
  The body of the branches for \<^verbatim>\<open>polynom_a\<close> and \<^verbatim>\<open>polynom_b\<close> up to the call of
  \<^verbatim>\<open>synchronize_polynomials\<close>. The size is the largest \<^verbatim>\<open>o+1\<close> over the orders \<^verbatim>\<open>o\<close> of the
  line, computed in \<^verbatim>\<open>unsigned int\<close>: for the order 4294967295 the sum wraps around to 0 and
  does not raise the size. When the size is not 0 the polynomial is resized to it and the
  values are stored; the store of an order that the size does not cover is out of range.
  The allocation of the resized vector is taken to succeed.
\<close>

definition read_polynom :: "(32 word \<times> dbl) list \<Rightarrow> dbl list \<Rightarrow> dbl list option" where
  "read_polynom pairs p =
     (let size' = fold (\<lambda>(ord, m) sz. if ord + 1 > sz then ord + 1 else sz) pairs (0 :: 32 word)
      in if size' > 0
         then store_polynom pairs (vector_resize (unat size') (Fin 0) p)
         else Some p)"

text \<open>Six extractions into an array from the place \<open>base\<close> on; numbers beyond the sixth stay unread.\<close>

definition read_6d :: "nat \<Rightarrow> dbl list \<Rightarrow> dbl list \<Rightarrow> dbl list" where
  "read_6d base vs arr = fold (\<lambda>(i, v) a. a[base + i := v]) (zip [0..<6] vs) arr"

definition has_t_vector :: "dbl list \<Rightarrow> bool" where
  "has_t_vector t = list_ex (\<lambda>v. dbl_ne v (Fin 0)) (take 6 t)"

definition has_r_matrix :: "dbl list \<Rightarrow> bool" where
  "has_r_matrix r = array_ne (take 36 r) unit_matrix"

definition has_polynom :: "dbl list \<Rightarrow> bool" where
  "has_polynom p = list_ex (\<lambda>v. dbl_ne v (Fin 0)) p"

text \<open>
  What \<^verbatim>\<open>write_polynom\<close> prints: the order and the value of every entry that is not zero.
  The order is the loop counter, an \<^verbatim>\<open>int\<close>, as the reader extracts it into an
  \<^verbatim>\<open>unsigned int\<close>.
\<close>

definition write_polynom :: "dbl list \<Rightarrow> (32 word \<times> dbl) list" where
  "write_polynom p =
     map (\<lambda>(i, v). (word_of_nat i, v))
       (filter (\<lambda>(i, v). dbl_ne v (Fin 0)) (zip [0..<length p] p))"

text \<open>What \<^verbatim>\<open>write_6d_vector\<close> prints: the six numbers from the place \<open>base\<close> on.\<close>

definition write_6d_vector :: "nat \<Rightarrow> dbl list \<Rightarrow> dbl list" where
  "write_6d_vector base t = take 6 (drop base t)"

text \<open>
  What the extraction of a string reads back from a printed string: its first word, empty
  when there is none. Words are separated by the characters of \<^verbatim>\<open>isspace\<close>: space, tab, line
  feed, vertical tab, form feed and carriage return.
\<close>

definition whitespace :: "char list" where
  "whitespace = [CHR '' '', CHR 0x09, CHR 0x0A, CHR 0x0B, CHR 0x0C, CHR 0x0D]"

definition first_word :: "string \<Rightarrow> string" where
  "first_word s =
     takeWhile (\<lambda>c. c \<notin> set whitespace) (dropWhile (\<lambda>c. c \<in> set whitespace) s)"

subsection \<open>Reading\<close>

text \<open>
  The variables of \<^verbatim>\<open>read_flat_file_trackcpp\<close>: the accelerator under construction, the
  element \<^verbatim>\<open>e\<close> that accumulates the keys, and the two flags.
\<close>

record 'k reader_state =
  rd_accelerator :: "'k Accelerator"
  rd_e :: "'k Element"
  found_hmin :: bool
  found_vmin :: bool

text \<open>
  \<^verbatim>\<open>add_kicktable\<close> is not among the sources. It is a parameter of the reader: from the
  file name and the registry it answers a status, the registry it leaves and the pointer
  it sets.
\<close>

type_synonym 'k add_kicktable = "string \<Rightarrow> 'k list \<Rightarrow> Status \<times> 'k list \<times> 'k option"

text \<open>
  The branch for \<^verbatim>\<open>pass_method\<close>: \<open>Inl\<close> where the reader returns with a status, with the
  accelerator as it stands.
\<close>

definition read_pass_method ::
  "'k add_kicktable \<Rightarrow> string \<Rightarrow> 'k reader_state \<Rightarrow> (Status \<times> 'k Accelerator) + 'k reader_state" where
  "read_pass_method add_kicktable pass_method' st =
     (case pm_search (take PassMethod_pm_nr_pms pm_dict) pass_method' 0 of
        None \<Rightarrow> Inl (passmethod_not_defined, rd_accelerator st)
      | Some i \<Rightarrow>
          let e1 = (rd_e st)\<lparr>pass_method := int i\<rparr> in
          if pass_method' = ''kicktable_pass'' then
            (case add_kicktable (fam_name e1 @ ''.txt'') (kicktables (rd_accelerator st)) of
               (status, tables, pointer) \<Rightarrow>
                 let acc1 = (rd_accelerator st)\<lparr>kicktables := tables\<rparr> in
                 if status \<noteq> success then Inl (status, acc1)
                 else Inr (st\<lparr>rd_accelerator := acc1, rd_e := e1\<lparr>kicktable := pointer\<rparr>\<rparr>))
          else Inr (st\<lparr>rd_e := e1\<rparr>))"

text \<open>
  The body of the reading loop, one line at a time. The answer is \<open>None\<close> where the line
  makes the reader write out of range.
\<close>

fun read_line ::
  "'k add_kicktable \<Rightarrow> flat_line \<Rightarrow> 'k reader_state \<Rightarrow>
     ((Status \<times> 'k Accelerator) + 'k reader_state) option" where
  "read_line add_kicktable Comment_line st = Some (Inr st)"
| "read_line add_kicktable (Header_energy v) st =
     Some (Inr (st\<lparr>rd_accelerator := (rd_accelerator st)\<lparr>energy := v\<rparr>\<rparr>))"
| "read_line add_kicktable (Header_harmonic_number n) st =
     Some (Inr (st\<lparr>rd_accelerator := (rd_accelerator st)\<lparr>harmonic_number := n\<rparr>\<rparr>))"
| "read_line add_kicktable (Header_cavity_on s) st =
     Some (Inr (st\<lparr>rd_accelerator := (rd_accelerator st)\<lparr>cavity_on := read_boolean_string s\<rparr>\<rparr>))"
| "read_line add_kicktable (Header_radiation_on s) st =
     Some (Inr (st\<lparr>rd_accelerator := (rd_accelerator st)\<lparr>radiation_on := read_boolean_string s\<rparr>\<rparr>))"
| "read_line add_kicktable (Header_vchamber_on s) st =
     Some (Inr (st\<lparr>rd_accelerator := (rd_accelerator st)\<lparr>vchamber_on := read_boolean_string s\<rparr>\<rparr>))"
| "read_line add_kicktable Header_other st = Some (Inr st)"
| "read_line add_kicktable (Key_fam_name name) st =
     (let st1 = (if fam_name (rd_e st) \<noteq> []
                 then st\<lparr>rd_accelerator := (rd_accelerator st)
                            \<lparr>lattice := lattice (rd_accelerator st) @ [rd_e st]\<rparr>,
                          rd_e := Element_init [] (Fin 0)\<rparr>
                 else st)
      in Some (Inr (st1\<lparr>rd_e := (rd_e st1)\<lparr>fam_name := name\<rparr>\<rparr>)))"
| "read_line add_kicktable (Key_length v) st = Some (Inr (st\<lparr>rd_e := (rd_e st)\<lparr>length_el := v\<rparr>\<rparr>))"
| "read_line add_kicktable (Key_hmin v) st =
     Some (Inr (st\<lparr>rd_e := (rd_e st)\<lparr>hmin := v\<rparr>, found_hmin := True\<rparr>))"
| "read_line add_kicktable (Key_hmax v) st =
     (let e1 = (rd_e st)\<lparr>hmax := v\<rparr>;
          e2 = (if \<not> found_hmin st then e1\<lparr>hmin := dbl_neg (hmax e1)\<rparr> else e1)
      in Some (Inr (st\<lparr>rd_e := e2, found_hmin := False\<rparr>)))"
| "read_line add_kicktable (Key_vmin v) st =
     Some (Inr (st\<lparr>rd_e := (rd_e st)\<lparr>vmin := v\<rparr>, found_vmin := True\<rparr>))"
| "read_line add_kicktable (Key_vmax v) st =
     (let e1 = (rd_e st)\<lparr>vmax := v\<rparr>;
          e2 = (if \<not> found_vmin st then e1\<lparr>vmin := dbl_neg (vmax e1)\<rparr> else e1)
      in Some (Inr (st\<lparr>rd_e := e2, found_vmin := False\<rparr>)))"
| "read_line add_kicktable (Key_hkick v) st = Some (Inr (st\<lparr>rd_e := (rd_e st)\<lparr>hkick := v\<rparr>\<rparr>))"
| "read_line add_kicktable (Key_vkick v) st = Some (Inr (st\<lparr>rd_e := (rd_e st)\<lparr>vkick := v\<rparr>\<rparr>))"
| "read_line add_kicktable (Key_nr_steps n) st = Some (Inr (st\<lparr>rd_e := (rd_e st)\<lparr>nr_steps := n\<rparr>\<rparr>))"
| "read_line add_kicktable (Key_angle v) st = Some (Inr (st\<lparr>rd_e := (rd_e st)\<lparr>angle := v\<rparr>\<rparr>))"
| "read_line add_kicktable (Key_gap v) st = Some (Inr (st\<lparr>rd_e := (rd_e st)\<lparr>gap := v\<rparr>\<rparr>))"
| "read_line add_kicktable (Key_fint_in v) st = Some (Inr (st\<lparr>rd_e := (rd_e st)\<lparr>fint_in := v\<rparr>\<rparr>))"
| "read_line add_kicktable (Key_fint_out v) st = Some (Inr (st\<lparr>rd_e := (rd_e st)\<lparr>fint_out := v\<rparr>\<rparr>))"
| "read_line add_kicktable (Key_voltage v) st = Some (Inr (st\<lparr>rd_e := (rd_e st)\<lparr>voltage := v\<rparr>\<rparr>))"
| "read_line add_kicktable (Key_frequency v) st = Some (Inr (st\<lparr>rd_e := (rd_e st)\<lparr>frequency := v\<rparr>\<rparr>))"
| "read_line add_kicktable (Key_angle_in v) st = Some (Inr (st\<lparr>rd_e := (rd_e st)\<lparr>angle_in := v\<rparr>\<rparr>))"
| "read_line add_kicktable (Key_angle_out v) st = Some (Inr (st\<lparr>rd_e := (rd_e st)\<lparr>angle_out := v\<rparr>\<rparr>))"
| "read_line add_kicktable (Key_t_in vs) st =
     Some (Inr (st\<lparr>rd_e := (rd_e st)\<lparr>t_in := read_6d 0 vs (t_in (rd_e st))\<rparr>\<rparr>))"
| "read_line add_kicktable (Key_t_out vs) st =
     Some (Inr (st\<lparr>rd_e := (rd_e st)\<lparr>t_out := read_6d 0 vs (t_out (rd_e st))\<rparr>\<rparr>))"
| "read_line add_kicktable (Key_r_in row vs) st =
     Some (Inr (st\<lparr>rd_e := (rd_e st)\<lparr>r_in := read_6d (row * 6) vs (r_in (rd_e st))\<rparr>\<rparr>))"
| "read_line add_kicktable (Key_r_out row vs) st =
     Some (Inr (st\<lparr>rd_e := (rd_e st)\<lparr>r_out := read_6d (row * 6) vs (r_out (rd_e st))\<rparr>\<rparr>))"
| "read_line add_kicktable (Key_pass_method name) st =
     Some (read_pass_method add_kicktable name st)"
| "read_line add_kicktable (Key_polynom_a pairs) st =
     (case read_polynom pairs (polynom_a (rd_e st)) of
        None \<Rightarrow> None
      | Some p \<Rightarrow>
          Some (Inr (st\<lparr>rd_e := synchronize_polynomials ((rd_e st)\<lparr>polynom_a := p\<rparr>)\<rparr>)))"
| "read_line add_kicktable (Key_polynom_b pairs) st =
     (case read_polynom pairs (polynom_b (rd_e st)) of
        None \<Rightarrow> None
      | Some p \<Rightarrow>
          Some (Inr (st\<lparr>rd_e := synchronize_polynomials ((rd_e st)\<lparr>polynom_b := p\<rparr>)\<rparr>)))"
| "read_line add_kicktable (Other_line n) st =
     (if n < 2 then Some (Inr st) else Some (Inl (flat_file_error, rd_accelerator st)))"

text \<open>The reading loop, and the code after it, which commits the last element.\<close>

fun read_lines ::
  "'k add_kicktable \<Rightarrow> flat_line list \<Rightarrow> 'k reader_state \<Rightarrow> (Status \<times> 'k Accelerator) option" where
  "read_lines add_kicktable [] st =
     Some (success,
       if fam_name (rd_e st) \<noteq> []
       then (rd_accelerator st)\<lparr>lattice := lattice (rd_accelerator st) @ [rd_e st]\<rparr>
       else rd_accelerator st)"
| "read_lines add_kicktable (l # ls) st =
     (case read_line add_kicktable l st of
        None \<Rightarrow> None
      | Some (Inl r) \<Rightarrow> Some r
      | Some (Inr st') \<Rightarrow> read_lines add_kicktable ls st')"

text \<open>
  The file is \<open>None\<close> when it cannot be opened. The answer is \<open>None\<close> where a line makes the
  reader write out of range.
\<close>

definition read_flat_file_trackcpp ::
  "'k add_kicktable \<Rightarrow> flat_line list option \<Rightarrow> 'k Accelerator \<Rightarrow>
     (Status \<times> 'k Accelerator) option" where
  "read_flat_file_trackcpp add_kicktable file accelerator =
     (case file of
        None \<Rightarrow> Some (file_not_found, accelerator)
      | Some ls \<Rightarrow>
          read_lines add_kicktable ls
            \<lparr>rd_accelerator = accelerator\<lparr>lattice := []\<rparr>, rd_e = Element_init [] (Fin 0),
             found_hmin = False, found_vmin = False\<rparr>)"

definition read_flat_file ::
  "'k add_kicktable \<Rightarrow> flat_line list option \<Rightarrow> 'k Accelerator \<Rightarrow>
     (Status \<times> 'k Accelerator) option" where
  "read_flat_file add_kicktable file accelerator =
     read_flat_file_trackcpp add_kicktable file accelerator"

text \<open>
  To speak of a line that the reader reaches: \<open>read_prefix \<dots> ls st\<close> runs the loop over the
  lines \<open>ls\<close> and answers \<open>Inr\<close> with the state of the variables after them, or \<open>Inl\<close> with
  what the reader returns when one of them makes it return, or \<open>None\<close> when one of them makes
  it write out of range.
\<close>

fun read_prefix ::
  "'k add_kicktable \<Rightarrow> flat_line list \<Rightarrow> 'k reader_state \<Rightarrow>
     ((Status \<times> 'k Accelerator) + 'k reader_state) option" where
  "read_prefix add_kicktable [] st = Some (Inr st)"
| "read_prefix add_kicktable (l # ls) st =
     (case read_line add_kicktable l st of
        None \<Rightarrow> None
      | Some (Inl r) \<Rightarrow> Some (Inl r)
      | Some (Inr st') \<Rightarrow> read_prefix add_kicktable ls st')"




subsection \<open>Writing\<close>

text \<open>
  The lines that \<^verbatim>\<open>write_flat_file\<close> prints for one element, as the reader gets them: the
  comment with the index, the three lines printed for every element, the lines printed
  under a test, and the empty line. The name of the pass method is \<^verbatim>\<open>pm_dict[e.pass_method]\<close>,
  read out of range, and the answer \<open>None\<close>, for a tag that is no index of the table. The
  loops over a polynomial count in an \<^verbatim>\<open>int\<close>, which overflows, and the answer is \<open>None\<close>, for
  a polynomial of \<open>2^31\<close> entries or more. Family names are taken to hold no line break.
\<close>

definition write_element :: "'k Element \<Rightarrow> flat_line list option" where
  "write_element e =
     (if pass_method e < 0 \<or> int (length pm_dict) \<le> pass_method e then None
      else if 2 ^ 31 \<le> int (length (polynom_a e)) \<or> 2 ^ 31 \<le> int (length (polynom_b e)) then None
      else Some
        ([Comment_line,
          Key_fam_name (first_word (fam_name e)),
          Key_length (length_el e),
          Key_pass_method (pm_dict ! nat (pass_method e))] @
         (if nr_steps e \<noteq> 1 then [Key_nr_steps (nr_steps e)] else []) @
         (if has_polynom (polynom_a e) then [Key_polynom_a (write_polynom (polynom_a e))] else []) @
         (if has_polynom (polynom_b e) then [Key_polynom_b (write_polynom (polynom_b e))] else []) @
         (if dbl_ne (hmin e) (Fin 0) then [Key_hmin (hmin e)] else []) @
         (if dbl_ne (hmax e) (Fin 0) then [Key_hmax (hmax e)] else []) @
         (if dbl_ne (vmin e) (Fin 0) then [Key_vmin (vmin e)] else []) @
         (if dbl_ne (vmax e) (Fin 0) then [Key_vmax (vmax e)] else []) @
         (if dbl_ne (hkick e) (Fin 0) then [Key_hkick (hkick e)] else []) @
         (if dbl_ne (vkick e) (Fin 0) then [Key_vkick (vkick e)] else []) @
         (if dbl_ne (angle e) (Fin 0) then [Key_angle (angle e)] else []) @
         (if dbl_ne (gap e) (Fin 0) then [Key_gap (gap e)] else []) @
         (if dbl_ne (fint_in e) (Fin 0) then [Key_fint_in (fint_in e)] else []) @
         (if dbl_ne (fint_out e) (Fin 0) then [Key_fint_out (fint_out e)] else []) @
         (if dbl_ne (voltage e) (Fin 0) then [Key_voltage (voltage e)] else []) @
         (if dbl_ne (frequency e) (Fin 0) then [Key_frequency (frequency e)] else []) @
         (if dbl_ne (angle_in e) (Fin 0) then [Key_angle_in (angle_in e)] else []) @
         (if dbl_ne (angle_out e) (Fin 0) then [Key_angle_out (angle_out e)] else []) @
         (if has_t_vector (t_in e) then [Key_t_in (write_6d_vector 0 (t_in e))] else []) @
         (if has_t_vector (t_out e) then [Key_t_out (write_6d_vector 0 (t_out e))] else []) @
         (if has_r_matrix (r_in e)
          then map (\<lambda>row. Key_r_in row (write_6d_vector (6 * row) (r_in e))) [0..<6] else []) @
         (if has_r_matrix (r_out e)
          then map (\<lambda>row. Key_r_out row (write_6d_vector (6 * row) (r_out e))) [0..<6] else []) @
         [Other_line 0]))"

text \<open>
  \<^verbatim>\<open>write_flat_file\<close>: \<open>writable\<close> says whether the file can be opened. The answer is \<open>None\<close>
  where an element is printed with a tag out of range; otherwise it is the status and the
  file written, if any.
\<close>

definition write_flat_file ::
  "bool \<Rightarrow> 'k Accelerator \<Rightarrow> (Status \<times> flat_line list option) option" where
  "write_flat_file writable accelerator =
     (if \<not> writable then Some (file_not_found, None)
      else
        (case those (map write_element (lattice accelerator)) of
           None \<Rightarrow> None
         | Some elements \<Rightarrow>
             Some (success,
               Some ([Header_energy (energy accelerator),
                      Header_harmonic_number (harmonic_number accelerator),
                      Header_cavity_on (get_boolean_string (cavity_on accelerator)),
                      Header_radiation_on (get_boolean_string (radiation_on accelerator)),
                      Header_vchamber_on (get_boolean_string (vchamber_on accelerator)),
                      Other_line 0] @ concat elements))))"

text \<open>A reader's environment without kicktable files: \<^verbatim>\<open>add_kicktable\<close> finds none.\<close>

definition no_kicktables :: "unit add_kicktable" where
  "no_kicktables filename tables = (file_not_found, tables, None)"

section \<open>Concrete inputs\<close>

text \<open>
  Modelled from the spec: \<^verbatim>\<open>passmethods.h\<close> is not among the sources. The library below
  serves the concrete inputs at which theorems are evaluated. Its identity pass is the
  spec's ("identity: no change") and succeeds. The other eight maps need floating-point
  arithmetic and are not modelled: their entries answer \<open>passmethod_not_implemented\<close> and
  leave the coordinates alone. The concrete lattices below hold markers and elements with
  a tag outside the enumeration only.
\<close>

definition pm_not_modelled :: "'k passmethod" where
  "pm_not_modelled p el accelerator = (passmethod_not_implemented, p)"

definition identity_library :: "'k passmethods" where
  "identity_library =
     \<lparr>pm_identity_pass = (\<lambda>p el accelerator. (success, p)),
      pm_drift_pass = pm_not_modelled,
      pm_str_mpole_symplectic4_pass = pm_not_modelled,
      pm_bnd_mpole_symplectic4_pass = pm_not_modelled,
      pm_corrector_pass = pm_not_modelled,
      pm_cavity_pass = pm_not_modelled,
      pm_thinquad_pass = pm_not_modelled,
      pm_thinsext_pass = pm_not_modelled,
      pm_kicktable_pass = pm_not_modelled\<rparr>"

text \<open>A particle on the axis but for its horizontal position.\<close>

definition pos_at :: "dbl \<Rightarrow> Pos" where
  "pos_at x = \<lparr>rx = x, px = Fin 0, ry = Fin 0, py = Fin 0, de = Fin 0, dl = Fin 0\<rparr>"

text \<open>
  A marker with the aperture \<open>[-h, h]\<close> in both planes, and an accelerator around a lattice.
\<close>

definition marker_with_aperture :: "string \<Rightarrow> real \<Rightarrow> unit Element" where
  "marker_with_aperture name h =
     (Element_marker name)\<lparr>hmin := Fin (- h), hmax := Fin h, vmin := Fin (- h), vmax := Fin h\<rparr>"

definition ring_of :: "bool \<Rightarrow> unit Element list \<Rightarrow> unit Accelerator" where
  "ring_of vchamber line =
     \<lparr>energy = Fin 3000000000, cavity_on = False, radiation_on = False, vchamber_on = vchamber,
      harmonic_number = 864, lattice = line, kicktables = []\<rparr>"

text \<open>
  An element whose tag is outside the enumeration: \<^verbatim>\<open>pass_method\<close> is a public \<^verbatim>\<open>int\<close>
  of the class. \<^verbatim>\<open>track_elementpass\<close> takes its default branch on it.
\<close>

definition untagged_element :: "string \<Rightarrow> real \<Rightarrow> unit Element" where
  "untagged_element name h = (marker_with_aperture name h)\<lparr>pass_method := 99\<rparr>"

text \<open>The arguments of a call that starts at the first element with an empty output.\<close>

definition start_at :: "dbl \<Rightarrow> track_state" where
  "start_at x = \<lparr>orig_pos = pos_at x, pos = [], element_offset = 0, lost_plane = Plane_no_plane\<rparr>"

definition ring_start_at :: "dbl \<Rightarrow> ring_state" where
  "ring_start_at x =
     \<lparr>orig_pos = pos_at x, pos = [], element_offset = 0, lost_plane = Plane_no_plane, lost_turn = 7\<rparr>"

text \<open>
  A drift of length 1 whose horizontal aperture is \<open>[0, 1]\<close> and whose vertical aperture is
  \<open>[-1, 1]\<close>.
\<close>

definition half_open_drift :: "unit Element" where
  "half_open_drift =
     (Element_drift ''d'' (Fin 1))\<lparr>hmin := Fin 0, hmax := Fin 1, vmin := Fin (- 1), vmax := Fin 1\<rparr>"

text \<open>
  A file of two elements: the first gives \<^verbatim>\<open>hmin\<close> alone, the second gives \<^verbatim>\<open>hmax\<close> alone.
\<close>

definition two_apertures_file :: "flat_line list" where
  "two_apertures_file =
     [Key_fam_name ''a'', Key_hmin (Fin (- 2)), Key_fam_name ''b'', Key_hmax (Fin 1)]"


section \<open>Properties of the tracker\<close>

lemmas PassMethod_defs =
  PassMethod_pm_identity_pass_def PassMethod_pm_drift_pass_def
  PassMethod_pm_str_mpole_symplectic4_pass_def PassMethod_pm_bnd_mpole_symplectic4_pass_def
  PassMethod_pm_corrector_pass_def PassMethod_pm_cavity_pass_def
  PassMethod_pm_thinquad_pass_def PassMethod_pm_thinsext_pass_def
  PassMethod_pm_kicktable_pass_def


subsection \<open>The loop of the line tracker\<close>

text \<open>A walk that has reached iteration \<open>k\<close> goes on from there.\<close>

lemma linepass_loop_upto:
  "linepass_upto pms acc traj i k st = Some st' \<Longrightarrow>
   linepass_loop pms acc traj i (k + n) st = linepass_loop pms acc traj (i + k) n st'"
proof (induction k arbitrary: i st)
  case 0
  then show ?case by simp
next
  case (Suc k)
  then show ?case
    by (auto split: option.splits sum.splits)
qed

lemma track_linepass_at:
  assumes "linepass_at pms acc traj k st0 = Some st" and "k \<le> length (lattice acc)"
  shows "track_linepass pms acc traj st0 = linepass_loop pms acc traj k (length (lattice acc) - k) st"
proof -
  have "length (lattice acc) = k + (length (lattice acc) - k)" using assms(2) by simp
  then have "track_linepass pms acc traj st0 =
      linepass_loop pms acc traj 0 (k + (length (lattice acc) - k)) (linepass_prefill acc traj st0)"
    by (simp add: track_linepass_def)
  also have "\<dots> = linepass_loop pms acc traj (0 + k) (length (lattice acc) - k) st"
    using assms(1) unfolding linepass_at_def by (rule linepass_loop_upto)
  finally show ?thesis by simp
qed

lemma linepass_body_Inr:
  assumes "linepass_body pms acc traj i st = Some (Inr st')"
  shows "element_offset st < length (lattice acc)"
    and "element_offset st' < length (lattice acc)"
    and "length (pos st') = length (pos st)"
    and "traj \<Longrightarrow> i < length (pos st)"
    and "pos st' = entrance_recorded traj i st"
    and "lost_plane st' = lost_plane st"
proof -
  have m: "Suc a mod n < n" if "a < n" for a n :: nat
    using that by simp
  show "element_offset st < length (lattice acc)"
    and "element_offset st' < length (lattice acc)"
    and "length (pos st') = length (pos st)"
    and "traj \<Longrightarrow> i < length (pos st)"
    and "pos st' = entrance_recorded traj i st"
    and "lost_plane st' = lost_plane st"
    using assms
    by (auto simp: linepass_body_def Let_def entrance_recorded_def m split: if_splits prod.splits)
qed

lemma linepass_upto_length:
  "linepass_upto pms acc traj i k st = Some st' \<Longrightarrow> length (pos st') = length (pos st)"
  by (induction k arbitrary: i st) (auto split: option.splits sum.splits dest: linepass_body_Inr(3))

lemma linepass_upto_offset:
  "linepass_upto pms acc traj i k st = Some st' \<Longrightarrow>
   element_offset st < length (lattice acc) \<Longrightarrow> element_offset st' < length (lattice acc)"
  by (induction k arbitrary: i st) (auto split: option.splits sum.splits dest: linepass_body_Inr(2))

lemma linepass_prefill_simps:
  "element_offset (linepass_prefill acc traj st) = element_offset st"
  "orig_pos (linepass_prefill acc traj st) = orig_pos st"
  "lost_plane (linepass_prefill acc traj st) = lost_plane st"
  "length (pos (linepass_prefill acc traj st)) = length (pos st) + (if traj then length (lattice acc) else 0)"
  by (simp_all add: linepass_prefill_def Let_def)

lemma linepass_at_room:
  assumes "linepass_at pms acc traj k st0 = Some st" and "k < length (lattice acc)" and "traj"
  shows "k < length (pos st)"
proof -
  have "length (pos st) = length (pos (linepass_prefill acc traj st0))"
    using assms(1) unfolding linepass_at_def by (rule linepass_upto_length)
  then show ?thesis using assms(2,3) by (simp add: linepass_prefill_simps)
qed

lemma linepass_at_offset:
  assumes "linepass_at pms acc traj k st0 = Some st" and "element_offset st0 < length (lattice acc)"
  shows "element_offset st < length (lattice acc)"
  using assms linepass_upto_offset[of pms acc traj 0 k "linepass_prefill acc traj st0" st]
  by (simp add: linepass_at_def linepass_prefill_simps)

text \<open>What the body does once the pass method has answered.\<close>

lemma linepass_body_eval:
  assumes "element_offset st < length (lattice acc)"
    and "traj \<Longrightarrow> i < length (pos st)"
    and "track_elementpass pms (lattice acc ! element_offset st) (orig_pos st) acc = (status, p)"
  shows "linepass_body pms acc traj i st =
     (let element = lattice acc ! element_offset st;
          st2 = st\<lparr>orig_pos := p, pos := entrance_recorded traj i st\<rparr> in
      if lost_x acc element p then
        Some (Inl (if status = success then particle_lost else status,
                   st2\<lparr>pos := pos st2 @ [nan_pos], lost_plane := Plane_x\<rparr>))
      else if lost_y acc element p then
        Some (Inl (if status = success then particle_lost else status,
                   st2\<lparr>pos := pos st2 @ [nan_pos], lost_plane := Plane_y\<rparr>))
      else if status \<noteq> success then Some (Inl (status, st2))
      else Some (Inr (st2\<lparr>element_offset := (element_offset st + 1) mod length (lattice acc)\<rparr>)))"
  using assms by (auto simp: linepass_body_def Let_def entrance_recorded_def)

lemma track_linepass_step:
  assumes "element_offset st0 < length (lattice acc)"
    and "k < length (lattice acc)"
    and "linepass_at pms acc traj k st0 = Some st"
  shows "track_linepass pms acc traj st0 =
     (case linepass_body pms acc traj k st of
        None \<Rightarrow> None
      | Some (Inl r) \<Rightarrow> Some r
      | Some (Inr st') \<Rightarrow> linepass_loop pms acc traj (Suc k) (length (lattice acc) - Suc k) st')"
proof -
  have "length (lattice acc) - k = Suc (length (lattice acc) - Suc k)"
    using assms(2) by simp
  then show ?thesis
    using track_linepass_at[OF assms(3)] assms(2) by simp
qed

subsection \<open>Loss against the vacuum chamber\<close>

text \<open>
  What the loss check does with the coordinates \<open>p\<close> and the status that the pass method of
  the element of iteration \<open>k\<close> leaves, with the vacuum chamber on.
\<close>

lemma linepass_loss_branch:
  assumes "vchamber_on acc"
    and "element_offset st0 < length (lattice acc)"
    and "k < length (lattice acc)"
    and "linepass_at pms acc traj k st0 = Some st"
    and "track_elementpass pms (lattice acc ! element_offset st) (orig_pos st) acc = (status, p)"
  shows "((\<not> isfinite (rx p) \<or> dbl_less (rx p) (hmin (lattice acc ! element_offset st))
            \<or> dbl_greater (rx p) (hmax (lattice acc ! element_offset st))) \<longrightarrow>
          track_linepass pms acc traj st0 =
            Some (if status = success then particle_lost else status,
                  st\<lparr>orig_pos := p, pos := entrance_recorded traj k st @ [nan_pos],
                     lost_plane := Plane_x\<rparr>)) \<and>
         (\<not> (\<not> isfinite (rx p) \<or> dbl_less (rx p) (hmin (lattice acc ! element_offset st))
            \<or> dbl_greater (rx p) (hmax (lattice acc ! element_offset st))) \<and>
          (\<not> isfinite (ry p) \<or> dbl_less (ry p) (vmin (lattice acc ! element_offset st))
            \<or> dbl_greater (ry p) (vmax (lattice acc ! element_offset st))) \<longrightarrow>
          track_linepass pms acc traj st0 =
            Some (if status = success then particle_lost else status,
                  st\<lparr>orig_pos := p, pos := entrance_recorded traj k st @ [nan_pos],
                     lost_plane := Plane_y\<rparr>))"
proof -
  have off: "element_offset st < length (lattice acc)"
    using assms(4,2) by (rule linepass_at_offset)
  have room: "traj \<Longrightarrow> k < length (pos st)"
    using assms(4,3) by (rule linepass_at_room)
  note body = linepass_body_eval[OF off room assms(5)]
  show ?thesis
    unfolding track_linepass_step[OF assms(2,3,4)]
    using assms(1) by (simp add: body lost_x_def lost_y_def Let_def)
qed

text \<open>
  Claim C1. Let the vacuum chamber be on and let the walk of \<^verbatim>\<open>track_linepass\<close> have
  reached the element of iteration \<open>k\<close>, whose pass method is applied, succeeds and leaves
  the coordinates \<open>p\<close>. If \<open>rx\<close> is not finite, or below \<open>hmin\<close>, or above \<open>hmax\<close>, the function
  appends a NaN-filled coordinate to the output, sets the plane of loss to the horizontal
  one and returns \<open>particle_lost\<close>; if the horizontal test passes and \<open>ry\<close> fails the same
  test against \<open>vmin\<close> and \<open>vmax\<close>, it does the same with the vertical plane. The
  horizontal test comes first: when it fails the plane is the horizontal one whatever \<open>ry\<close>
  is.
\<close>

theorem linepass_aperture_loss:
  assumes "vchamber_on acc"
    and "element_offset st0 < length (lattice acc)"
    and "k < length (lattice acc)"
    and "linepass_at pms acc traj k st0 = Some st"
    and "track_elementpass pms (lattice acc ! element_offset st) (orig_pos st) acc = (success, p)"
  shows "((\<not> isfinite (rx p) \<or> dbl_less (rx p) (hmin (lattice acc ! element_offset st))
            \<or> dbl_greater (rx p) (hmax (lattice acc ! element_offset st))) \<longrightarrow>
          track_linepass pms acc traj st0 =
            Some (particle_lost,
                  st\<lparr>orig_pos := p, pos := entrance_recorded traj k st @ [nan_pos],
                     lost_plane := Plane_x\<rparr>)) \<and>
         (\<not> (\<not> isfinite (rx p) \<or> dbl_less (rx p) (hmin (lattice acc ! element_offset st))
            \<or> dbl_greater (rx p) (hmax (lattice acc ! element_offset st))) \<and>
          (\<not> isfinite (ry p) \<or> dbl_less (ry p) (vmin (lattice acc ! element_offset st))
            \<or> dbl_greater (ry p) (vmax (lattice acc ! element_offset st))) \<longrightarrow>
          track_linepass pms acc traj st0 =
            Some (particle_lost,
                  st\<lparr>orig_pos := p, pos := entrance_recorded traj k st @ [nan_pos],
                     lost_plane := Plane_y\<rparr>))"
  using linepass_loss_branch[OF assms] by simp

subsection \<open>Unfolding the concrete inputs\<close>

lemmas concrete_defs =
  ring_of_def marker_with_aperture_def untagged_element_def start_at_def ring_start_at_def
  Element_marker_def Element_init_def
  initialize_marker_def identity_library_def pm_not_modelled_def pos_at_def PassMethod_defs

lemmas tracker_defs =
  track_linepass_def linepass_prefill_def linepass_body_def track_elementpass_def
  lost_x_def lost_y_def dbl_greater_def linepass_at_def entrance_recorded_def

text \<open>
  An instance: two markers of aperture \<open>[-1, 1]\<close>, a particle entering at \<open>rx = 2\<close>. It is
  lost in the horizontal plane at the first marker.
\<close>

theorem linepass_aperture_loss_witness:
  "vchamber_on (ring_of True [marker_with_aperture ''m1'' 1, marker_with_aperture ''m2'' 1]) \<and>
   linepass_at identity_library (ring_of True [marker_with_aperture ''m1'' 1, marker_with_aperture ''m2'' 1])
     True 0 \<lparr>orig_pos = pos_at (Fin 2), pos = [], element_offset = 0, lost_plane = Plane_no_plane\<rparr>
     = Some \<lparr>orig_pos = pos_at (Fin 2), pos = [nan_pos, nan_pos], element_offset = 0,
              lost_plane = Plane_no_plane\<rparr> \<and>
   track_elementpass identity_library (marker_with_aperture ''m1'' 1) (pos_at (Fin 2))
     (ring_of True [marker_with_aperture ''m1'' 1, marker_with_aperture ''m2'' 1])
     = (success, pos_at (Fin 2)) \<and>
   dbl_greater (rx (pos_at (Fin 2))) (hmax (marker_with_aperture ''m1'' 1)) \<and>
   track_linepass identity_library (ring_of True [marker_with_aperture ''m1'' 1, marker_with_aperture ''m2'' 1])
     True \<lparr>orig_pos = pos_at (Fin 2), pos = [], element_offset = 0, lost_plane = Plane_no_plane\<rparr>
     = Some (particle_lost,
         \<lparr>orig_pos = pos_at (Fin 2), pos = [pos_at (Fin 2), nan_pos, nan_pos], element_offset = 0,
          lost_plane = Plane_x\<rparr>)"
  using linepass_aperture_loss[of
      "ring_of True [marker_with_aperture ''m1'' 1, marker_with_aperture ''m2'' 1]"
      "\<lparr>orig_pos = pos_at (Fin 2), pos = [], element_offset = 0, lost_plane = Plane_no_plane\<rparr>"
      0 identity_library True
      "\<lparr>orig_pos = pos_at (Fin 2), pos = [nan_pos, nan_pos], element_offset = 0, lost_plane = Plane_no_plane\<rparr>"
      "pos_at (Fin 2)"]
  by (simp add: concrete_defs tracker_defs)

subsection \<open>A ring tracked for no turn\<close>

text \<open>
  Claim C5, as amended. With \<open>nr_turns = 0\<close>, \<^verbatim>\<open>track_ringpass\<close> returns \<open>success\<close>, sets
  \<open>lost_turn\<close> to 0 and leaves the coordinates, the element offset and the plane of loss
  as they were. Without the trajectory flag it appends the coordinates to the output,
  which is the one-element sequence \<open>[x]\<close> when the output was empty; with the trajectory
  flag it appends nothing.
\<close>

theorem ringpass_zero_turns:
  "track_ringpass pms acc 0 trajectory st =
     Some (success, st\<lparr>lost_turn := 0,
                       pos := (if trajectory then pos st else pos st @ [orig_pos st])\<rparr>)"
  by (simp add: track_ringpass_def)

text \<open>An instance without the trajectory flag: the output is the initial position alone.\<close>

theorem ringpass_zero_turns_witness:
  "track_ringpass identity_library (ring_of True [marker_with_aperture ''m1'' 1]) 0 False
     \<lparr>orig_pos = pos_at (Fin 2), pos = [], element_offset = 0, lost_plane = Plane_x, lost_turn = 7\<rparr>
   = Some (success,
       \<lparr>orig_pos = pos_at (Fin 2), pos = [pos_at (Fin 2)], element_offset = 0, lost_plane = Plane_x,
        lost_turn = 0\<rparr>)"
  using ringpass_zero_turns[of identity_library "ring_of True [marker_with_aperture ''m1'' 1]" False
      "\<lparr>orig_pos = pos_at (Fin 2), pos = [], element_offset = 0, lost_plane = Plane_x, lost_turn = 7\<rparr>"]
  by simp

text \<open>
  The claim as stated promises a one-element output for every call. With the trajectory
  flag set and no turn the output stays empty.
\<close>

theorem ringpass_zero_turns_trajectory_counterexample:
  "track_ringpass identity_library (ring_of True [marker_with_aperture ''m1'' 1]) 0 True
     \<lparr>orig_pos = pos_at (Fin 2), pos = [], element_offset = 0, lost_plane = Plane_x, lost_turn = 7\<rparr>
   = Some (success,
       \<lparr>orig_pos = pos_at (Fin 2), pos = [], element_offset = 0, lost_plane = Plane_x,
        lost_turn = 0\<rparr>)"
  by (simp add: track_ringpass_def)


subsection \<open>Reaching an element, and failing there\<close>

lemma linepass_upto_snoc:
  "linepass_upto pms acc traj i (Suc k) st = Some st'' \<longleftrightarrow>
   (\<exists>st'. linepass_upto pms acc traj i k st = Some st' \<and>
          linepass_body pms acc traj (i + k) st' = Some (Inr st''))"
proof (induction k arbitrary: i st)
  case 0
  then show ?case by (auto split: option.splits sum.splits)
next
  case (Suc k)
  show ?case
  proof (cases "linepass_body pms acc traj i st")
    case None
    then show ?thesis by simp
  next
    case (Some r)
    show ?thesis
    proof (cases r)
      case (Inl a)
      with Some show ?thesis by simp
    next
      case (Inr st1)
      with Some Suc.IH[of "Suc i" st1] show ?thesis by simp
    qed
  qed
qed

lemma linepass_at_Suc:
  "linepass_at pms acc traj (Suc k) st0 = Some st'' \<longleftrightarrow>
   (\<exists>st'. linepass_at pms acc traj k st0 = Some st' \<and>
          linepass_body pms acc traj k st' = Some (Inr st''))"
  unfolding linepass_at_def using linepass_upto_snoc[of pms acc traj 0 k] by simp

lemma linepass_at_0: "linepass_at pms acc traj 0 st0 = Some (linepass_prefill acc traj st0)"
  by (simp add: linepass_at_def)

lemma linepass_body_offset:
  assumes "linepass_body pms acc traj i st = Some (Inr st')"
  shows "element_offset st' = (element_offset st + 1) mod length (lattice acc)"
  using assms
  by (auto simp: linepass_body_def Let_def split: if_splits prod.splits)

lemma linepass_at_offset_eq:
  "linepass_at pms acc traj k st0 = Some st \<Longrightarrow> element_offset st0 < length (lattice acc) \<Longrightarrow>
   element_offset st = (element_offset st0 + k) mod length (lattice acc)"
proof (induction k arbitrary: st)
  case 0
  then show ?case by (auto simp: linepass_at_0 linepass_prefill_simps)
next
  case (Suc k)
  from Suc.prems(1) obtain st' where a: "linepass_at pms acc traj k st0 = Some st'"
    and b: "linepass_body pms acc traj k st' = Some (Inr st)"
    unfolding linepass_at_Suc by blast
  have "element_offset st' = (element_offset st0 + k) mod length (lattice acc)"
    using Suc.IH[OF a Suc.prems(2)] .
  then show ?case using linepass_body_offset[OF b] by (simp add: mod_Suc_eq)
qed

lemma linepass_failure:
  assumes "element_offset st0 < length (lattice acc)"
    and "k < length (lattice acc)"
    and "linepass_at pms acc traj k st0 = Some st"
    and "track_elementpass pms (lattice acc ! element_offset st) (orig_pos st) acc = (status, p)"
    and "status \<noteq> success"
  shows "track_linepass pms acc traj st0 =
     Some (status,
       st\<lparr>orig_pos := p,
          pos := entrance_recorded traj k st @
            (if lost_x acc (lattice acc ! element_offset st) p \<or>
                lost_y acc (lattice acc ! element_offset st) p then [nan_pos] else []),
          lost_plane :=
            (if lost_x acc (lattice acc ! element_offset st) p then Plane_x
             else if lost_y acc (lattice acc ! element_offset st) p then Plane_y
             else lost_plane st)\<rparr>)"
proof -
  have off: "element_offset st < length (lattice acc)"
    using assms(3,1) by (rule linepass_at_offset)
  have room: "traj \<Longrightarrow> k < length (pos st)"
    using assms(3,2) by (rule linepass_at_room)
  note body = linepass_body_eval[OF off room assms(4)]
  show ?thesis
    unfolding track_linepass_step[OF assms(1,2,3)]
    using assms(5) by (simp add: body Let_def)
qed

text \<open>The line tracker does not touch the turn counter.\<close>

lemma linepass_body_turn:
  fixes st :: ring_state
  shows "linepass_body pms acc traj i st = Some (Inr st') \<Longrightarrow> lost_turn st' = lost_turn st"
    and "linepass_body pms acc traj i st = Some (Inl (status, st')) \<Longrightarrow> lost_turn st' = lost_turn st"
  by (auto simp: linepass_body_def Let_def split: if_splits prod.splits)

lemma linepass_loop_turn:
  fixes st :: ring_state
  shows "linepass_loop pms acc traj i n st = Some (status, st') \<Longrightarrow> lost_turn st' = lost_turn st"
proof (induction n arbitrary: i st)
  case 0
  then show ?case by auto
next
  case (Suc n)
  show ?case
  proof (cases "linepass_body pms acc traj i st")
    case None
    with Suc.prems show ?thesis by simp
  next
    case (Some r)
    show ?thesis
    proof (cases r)
      case (Inl a)
      with Some Suc.prems have "linepass_body pms acc traj i st = Some (Inl (status, st'))"
        by simp
      then show ?thesis by (rule linepass_body_turn(2))
    next
      case (Inr st1)
      with Some Suc.prems have "linepass_loop pms acc traj (Suc i) n st1 = Some (status, st')"
        by simp
      then have "lost_turn st' = lost_turn st1" by (rule Suc.IH)
      moreover have "lost_turn st1 = lost_turn st"
        using Some Inr linepass_body_turn(1)[of pms acc traj i st st1] by simp
      ultimately show ?thesis by simp
    qed
  qed
qed

lemma track_linepass_turn:
  fixes st :: ring_state
  shows "track_linepass pms acc traj st = Some (status, st') \<Longrightarrow> lost_turn st' = lost_turn st"
  unfolding track_linepass_def
  by (drule linepass_loop_turn) (simp add: linepass_prefill_def Let_def)

lemma ringpass_body_Inr:
  assumes "ringpass_body pms acc traj fp st = Some (Inr (fp', st'))"
  shows "\<exists>st1. track_linepass pms acc False (st\<lparr>pos := fp\<rparr>) = Some (success, st1) \<and>
           fp' = pos st1 \<and>
           st' = (if traj then st1\<lparr>pos := pos st @ [orig_pos st1]\<rparr> else st1\<lparr>pos := pos st\<rparr>)"
proof (cases "track_linepass pms acc False (st\<lparr>pos := fp\<rparr>)")
  case None
  with assms show ?thesis by (simp add: ringpass_body_def)
next
  case (Some r)
  obtain status st1 where r: "r = (status, st1)" by (cases r)
  with Some assms show ?thesis
    by (simp add: ringpass_body_def Let_def split: if_splits)
qed

lemma ringpass_body_turn:
  assumes "ringpass_body pms acc traj fp st = Some (Inr (fp', st'))"
  shows "lost_turn st' = lost_turn st"
proof -
  from ringpass_body_Inr[OF assms] obtain st1 where
    a: "track_linepass pms acc False (st\<lparr>pos := fp\<rparr>) = Some (success, st1)" and
    b: "st' = (if traj then st1\<lparr>pos := pos st @ [orig_pos st1]\<rparr> else st1\<lparr>pos := pos st\<rparr>)"
    by blast
  have "lost_turn st1 = lost_turn st" using track_linepass_turn[OF a] by simp
  with b show ?thesis by simp
qed

lemma ringpass_loop_upto:
  "ringpass_upto pms acc traj t fp st = Some (fp', st') \<Longrightarrow>
   ringpass_loop pms acc traj (t + n) fp st = ringpass_loop pms acc traj n fp' st'"
proof (induction t arbitrary: fp st)
  case 0
  then show ?case by simp
next
  case (Suc t)
  show ?case
  proof (cases "ringpass_body pms acc traj fp st")
    case None
    with Suc.prems show ?thesis by simp
  next
    case (Some r)
    show ?thesis
    proof (cases r)
      case (Inl a)
      with Some Suc.prems show ?thesis by simp
    next
      case (Inr b)
      obtain fp1 st1 where b: "b = (fp1, st1)" by (cases b)
      with Some Inr Suc.prems Suc.IH[of fp1 "st1\<lparr>lost_turn := lost_turn st1 + 1\<rparr>"]
      show ?thesis by simp
    qed
  qed
qed

lemma ringpass_upto_turn:
  "ringpass_upto pms acc traj t fp st = Some (fp', st') \<Longrightarrow> lost_turn st' = lost_turn st + t"
proof (induction t arbitrary: fp st)
  case 0
  then show ?case by simp
next
  case (Suc t)
  show ?case
  proof (cases "ringpass_body pms acc traj fp st")
    case None
    with Suc.prems show ?thesis by simp
  next
    case (Some r)
    show ?thesis
    proof (cases r)
      case (Inl a)
      with Some Suc.prems show ?thesis by simp
    next
      case (Inr b)
      obtain fp1 st1 where b: "b = (fp1, st1)" by (cases b)
      have "lost_turn st1 = lost_turn st"
        using Some Inr b ringpass_body_turn[of pms acc traj fp st fp1 st1] by simp
      moreover have "lost_turn st' = lost_turn (st1\<lparr>lost_turn := lost_turn st1 + 1\<rparr>) + t"
        using Some Inr b Suc.prems Suc.IH[of fp1 "st1\<lparr>lost_turn := lost_turn st1 + 1\<rparr>"] by simp
      ultimately show ?thesis by simp
    qed
  qed
qed

lemma track_ringpass_at:
  assumes "ringpass_at pms acc traj t rs0 = Some (fp, rs)" and "t \<le> nr_turns"
  shows "track_ringpass pms acc nr_turns traj rs0 = ringpass_loop pms acc traj (nr_turns - t) fp rs"
proof -
  have "ringpass_loop pms acc traj (t + (nr_turns - t)) [] (rs0\<lparr>lost_turn := 0\<rparr>) =
        ringpass_loop pms acc traj (nr_turns - t) fp rs"
    using assms(1) unfolding ringpass_at_def by (rule ringpass_loop_upto)
  moreover have "t + (nr_turns - t) = nr_turns" using assms(2) by simp
  ultimately show ?thesis unfolding track_ringpass_def by metis
qed

lemma ringpass_failure:
  assumes "t < nr_turns"
    and "ringpass_at pms acc traj t rs0 = Some (fp, rs)"
    and "track_linepass pms acc False (rs\<lparr>pos := fp\<rparr>) = Some (status, rs1)"
    and "status \<noteq> success"
  shows "track_ringpass pms acc nr_turns traj rs0 = Some (status, rs1\<lparr>pos := pos rs\<rparr>)"
    and "lost_turn rs1 = t"
proof -
  obtain n where n: "nr_turns - t = Suc n"
    using assms(1) by (metis Suc_diff_Suc)
  have body: "ringpass_body pms acc traj fp rs = Some (Inl (status, rs1\<lparr>pos := pos rs\<rparr>))"
    using assms(3,4) by (simp add: ringpass_body_def Let_def)
  have "track_ringpass pms acc nr_turns traj rs0 = ringpass_loop pms acc traj (Suc n) fp rs"
    using track_ringpass_at[OF assms(2), of nr_turns] assms(1) n by simp
  also have "\<dots> = Some (status, rs1\<lparr>pos := pos rs\<rparr>)"
    by (simp add: body)
  finally show "track_ringpass pms acc nr_turns traj rs0 = Some (status, rs1\<lparr>pos := pos rs\<rparr>)" .
  have "lost_turn rs = lost_turn (rs0\<lparr>lost_turn := 0\<rparr>) + t"
    using assms(2) unfolding ringpass_at_def by (rule ringpass_upto_turn)
  then show "lost_turn rs1 = t"
    using track_linepass_turn[OF assms(3)] by simp
qed

subsection \<open>A pass method that fails\<close>

text \<open>\<^verbatim>\<open>track_elementpass\<close> hands back what the pass method of the element's tag answers.\<close>

lemma track_elementpass_dispatch:
  "pass_method el = PassMethod_pm_identity_pass \<Longrightarrow> track_elementpass pms el x acc = pm_identity_pass pms x el acc"
  "pass_method el = PassMethod_pm_drift_pass \<Longrightarrow> track_elementpass pms el x acc = pm_drift_pass pms x el acc"
  "pass_method el = PassMethod_pm_str_mpole_symplectic4_pass \<Longrightarrow>
     track_elementpass pms el x acc = pm_str_mpole_symplectic4_pass pms x el acc"
  "pass_method el = PassMethod_pm_bnd_mpole_symplectic4_pass \<Longrightarrow>
     track_elementpass pms el x acc = pm_bnd_mpole_symplectic4_pass pms x el acc"
  "pass_method el = PassMethod_pm_corrector_pass \<Longrightarrow> track_elementpass pms el x acc = pm_corrector_pass pms x el acc"
  "pass_method el = PassMethod_pm_cavity_pass \<Longrightarrow> track_elementpass pms el x acc = pm_cavity_pass pms x el acc"
  "pass_method el = PassMethod_pm_thinquad_pass \<Longrightarrow> track_elementpass pms el x acc = pm_thinquad_pass pms x el acc"
  "pass_method el = PassMethod_pm_thinsext_pass \<Longrightarrow> track_elementpass pms el x acc = pm_thinsext_pass pms x el acc"
  "pass_method el = PassMethod_pm_kicktable_pass \<Longrightarrow> track_elementpass pms el x acc = pm_kicktable_pass pms x el acc"
  "pass_method el < 0 \<or> 8 < pass_method el \<Longrightarrow> track_elementpass pms el x acc = (passmethod_not_defined, x)"
  by (auto simp: track_elementpass_def PassMethod_defs)

text \<open>
  Claim C4, as amended. Let the pass method of an element answer a status other than
  \<open>success\<close>. First, when the walk of \<^verbatim>\<open>track_linepass\<close> has reached that element at
  iteration \<open>k\<close>, the function returns that status, with the element offset still at the
  failing element, which is \<open>(offset + k) mod N\<close>, and with the coordinates as the pass
  method left them. The loss check still runs on those coordinates, whether the vacuum
  chamber is on or off: when they fail the horizontal test the output holds what it held
  once the entrance was recorded followed by one NaN-filled coordinate and the plane of
  loss is the horizontal one; when they pass the horizontal test and fail the vertical one
  the same coordinate is appended and the plane is the vertical one; when they pass both
  nothing is appended and the plane of loss is left as it was. Second, when that happens
  in turn \<open>t\<close> of \<^verbatim>\<open>track_ringpass\<close>, the ring tracker returns the same status with
  \<open>lost_turn = t\<close>, the offset at the failing element, the plane of loss as the line
  tracker set it and its own output as it was at the start of the turn. Third,
  \<^verbatim>\<open>track_elementpass\<close> returns what the pass method selected by the tag returns.
\<close>

theorem passmethod_failure_bubbles:
  assumes "status \<noteq> success"
  shows
    "(element_offset st0 < length (lattice acc) \<and> k < length (lattice acc) \<and>
      linepass_at pms acc traj k st0 = Some st \<and>
      track_elementpass pms (lattice acc ! element_offset st) (orig_pos st) acc = (status, p) \<longrightarrow>
      (\<exists>st'. track_linepass pms acc traj st0 = Some (status, st') \<and>
         element_offset st' = element_offset st \<and>
         element_offset st = (element_offset st0 + k) mod length (lattice acc) \<and>
         orig_pos st' = p \<and>
         pos st' = entrance_recorded traj k st @
           (if lost_x acc (lattice acc ! element_offset st) p \<or>
               lost_y acc (lattice acc ! element_offset st) p then [nan_pos] else []) \<and>
         lost_plane st' =
           (if lost_x acc (lattice acc ! element_offset st) p then Plane_x
            else if lost_y acc (lattice acc ! element_offset st) p then Plane_y
            else lost_plane st))) \<and>
     (t < nr_turns \<and> ringpass_at pms acc rtraj t rs0 = Some (fp, rs) \<and>
      element_offset rs < length (lattice acc) \<and> j < length (lattice acc) \<and>
      linepass_at pms acc False j (rs\<lparr>pos := fp\<rparr>) = Some rst \<and>
      track_elementpass pms (lattice acc ! element_offset rst) (orig_pos rst) acc = (status, q) \<longrightarrow>
      (\<exists>rs'. track_ringpass pms acc nr_turns rtraj rs0 = Some (status, rs') \<and>
         lost_turn rs' = t \<and> element_offset rs' = element_offset rst \<and>
         orig_pos rs' = q \<and> pos rs' = pos rs \<and>
         lost_plane rs' =
           (if lost_x acc (lattice acc ! element_offset rst) q then Plane_x
            else if lost_y acc (lattice acc ! element_offset rst) q then Plane_y
            else lost_plane rst))) \<and>
     ((pass_method el = PassMethod_pm_identity_pass \<longrightarrow>
         track_elementpass pms el x acc = pm_identity_pass pms x el acc) \<and>
      (pass_method el = PassMethod_pm_drift_pass \<longrightarrow>
         track_elementpass pms el x acc = pm_drift_pass pms x el acc) \<and>
      (pass_method el = PassMethod_pm_str_mpole_symplectic4_pass \<longrightarrow>
         track_elementpass pms el x acc = pm_str_mpole_symplectic4_pass pms x el acc) \<and>
      (pass_method el = PassMethod_pm_bnd_mpole_symplectic4_pass \<longrightarrow>
         track_elementpass pms el x acc = pm_bnd_mpole_symplectic4_pass pms x el acc) \<and>
      (pass_method el = PassMethod_pm_corrector_pass \<longrightarrow>
         track_elementpass pms el x acc = pm_corrector_pass pms x el acc) \<and>
      (pass_method el = PassMethod_pm_cavity_pass \<longrightarrow>
         track_elementpass pms el x acc = pm_cavity_pass pms x el acc) \<and>
      (pass_method el = PassMethod_pm_thinquad_pass \<longrightarrow>
         track_elementpass pms el x acc = pm_thinquad_pass pms x el acc) \<and>
      (pass_method el = PassMethod_pm_thinsext_pass \<longrightarrow>
         track_elementpass pms el x acc = pm_thinsext_pass pms x el acc) \<and>
      (pass_method el = PassMethod_pm_kicktable_pass \<longrightarrow>
         track_elementpass pms el x acc = pm_kicktable_pass pms x el acc))"
proof (intro conjI impI)
  assume h: "element_offset st0 < length (lattice acc) \<and> k < length (lattice acc) \<and>
      linepass_at pms acc traj k st0 = Some st \<and>
      track_elementpass pms (lattice acc ! element_offset st) (orig_pos st) acc = (status, p)"
  then have offs: "element_offset st = (element_offset st0 + k) mod length (lattice acc)"
    using linepass_at_offset_eq by blast
  have line: "track_linepass pms acc traj st0 =
     Some (status,
       st\<lparr>orig_pos := p,
          pos := entrance_recorded traj k st @
            (if lost_x acc (lattice acc ! element_offset st) p \<or>
                lost_y acc (lattice acc ! element_offset st) p then [nan_pos] else []),
          lost_plane :=
            (if lost_x acc (lattice acc ! element_offset st) p then Plane_x
             else if lost_y acc (lattice acc ! element_offset st) p then Plane_y
             else lost_plane st)\<rparr>)"
    using h assms by (intro linepass_failure) simp_all
  show "\<exists>st'. track_linepass pms acc traj st0 = Some (status, st') \<and>
         element_offset st' = element_offset st \<and>
         element_offset st = (element_offset st0 + k) mod length (lattice acc) \<and>
         orig_pos st' = p \<and>
         pos st' = entrance_recorded traj k st @
           (if lost_x acc (lattice acc ! element_offset st) p \<or>
               lost_y acc (lattice acc ! element_offset st) p then [nan_pos] else []) \<and>
         lost_plane st' =
           (if lost_x acc (lattice acc ! element_offset st) p then Plane_x
            else if lost_y acc (lattice acc ! element_offset st) p then Plane_y
            else lost_plane st)"
    unfolding line using offs by simp
next
  assume h: "t < nr_turns \<and> ringpass_at pms acc rtraj t rs0 = Some (fp, rs) \<and>
      element_offset rs < length (lattice acc) \<and> j < length (lattice acc) \<and>
      linepass_at pms acc False j (rs\<lparr>pos := fp\<rparr>) = Some rst \<and>
      track_elementpass pms (lattice acc ! element_offset rst) (orig_pos rst) acc = (status, q)"
  define rs1 where "rs1 = rst\<lparr>orig_pos := q,
          pos := entrance_recorded False j rst @
            (if lost_x acc (lattice acc ! element_offset rst) q \<or>
                lost_y acc (lattice acc ! element_offset rst) q then [nan_pos] else []),
          lost_plane :=
            (if lost_x acc (lattice acc ! element_offset rst) q then Plane_x
             else if lost_y acc (lattice acc ! element_offset rst) q then Plane_y
             else lost_plane rst)\<rparr>"
  have line: "track_linepass pms acc False (rs\<lparr>pos := fp\<rparr>) = Some (status, rs1)"
    unfolding rs1_def using h assms by (intro linepass_failure) simp_all
  have ring: "track_ringpass pms acc nr_turns rtraj rs0 = Some (status, rs1\<lparr>pos := pos rs\<rparr>)"
    and turn: "lost_turn rs1 = t"
    using ringpass_failure[OF _ _ line assms, of t nr_turns rtraj rs0] h by simp_all
  show "\<exists>rs'. track_ringpass pms acc nr_turns rtraj rs0 = Some (status, rs') \<and>
         lost_turn rs' = t \<and> element_offset rs' = element_offset rst \<and>
         orig_pos rs' = q \<and> pos rs' = pos rs \<and>
         lost_plane rs' =
           (if lost_x acc (lattice acc ! element_offset rst) q then Plane_x
            else if lost_y acc (lattice acc ! element_offset rst) q then Plane_y
            else lost_plane rst)"
    using ring turn by (simp add: rs1_def)
qed (simp_all add: track_elementpass_dispatch)

text \<open>
  An instance: a marker followed by an element with an unknown tag, tracked from the
  axis, as a line and as a ring of three turns. The failure is at the second element, in
  turn 0.
\<close>

theorem passmethod_failure_bubbles_witness:
  "passmethod_not_defined \<noteq> success \<and>
   linepass_at identity_library (ring_of False [marker_with_aperture ''m1'' 1, untagged_element ''e2'' 1])
     True 1 (start_at (Fin 0))
     = Some \<lparr>orig_pos = pos_at (Fin 0), pos = [pos_at (Fin 0), nan_pos], element_offset = 1,
              lost_plane = Plane_no_plane\<rparr> \<and>
   track_elementpass identity_library (untagged_element ''e2'' 1) (pos_at (Fin 0))
     (ring_of False [marker_with_aperture ''m1'' 1, untagged_element ''e2'' 1])
     = (passmethod_not_defined, pos_at (Fin 0)) \<and>
   track_linepass identity_library (ring_of False [marker_with_aperture ''m1'' 1, untagged_element ''e2'' 1])
     True (start_at (Fin 0))
     = Some (passmethod_not_defined,
         \<lparr>orig_pos = pos_at (Fin 0), pos = [pos_at (Fin 0), pos_at (Fin 0)], element_offset = 1,
          lost_plane = Plane_no_plane\<rparr>) \<and>
   ringpass_at identity_library (ring_of False [marker_with_aperture ''m1'' 1, untagged_element ''e2'' 1])
     True 0 (ring_start_at (Fin 0))
     = Some ([], (ring_start_at (Fin 0))\<lparr>lost_turn := 0\<rparr>) \<and>
   linepass_at identity_library (ring_of False [marker_with_aperture ''m1'' 1, untagged_element ''e2'' 1])
     False 1 ((ring_start_at (Fin 0))\<lparr>lost_turn := 0\<rparr>)
     = Some \<lparr>orig_pos = pos_at (Fin 0), pos = [], element_offset = 1,
              lost_plane = Plane_no_plane, lost_turn = 0\<rparr> \<and>
   track_ringpass identity_library (ring_of False [marker_with_aperture ''m1'' 1, untagged_element ''e2'' 1])
     3 True (ring_start_at (Fin 0))
     = Some (passmethod_not_defined,
         \<lparr>orig_pos = pos_at (Fin 0), pos = [], element_offset = 1,
          lost_plane = Plane_no_plane, lost_turn = 0\<rparr>)"
  using passmethod_failure_bubbles[of passmethod_not_defined
      "start_at (Fin 0)"
      "ring_of False [marker_with_aperture ''m1'' 1, untagged_element ''e2'' 1]"
      1 identity_library True
      "\<lparr>orig_pos = pos_at (Fin 0), pos = [pos_at (Fin 0), nan_pos], element_offset = 1,
        lost_plane = Plane_no_plane\<rparr>"
      "pos_at (Fin 0)"
      0 3 True "ring_start_at (Fin 0)" "[]" "(ring_start_at (Fin 0))\<lparr>lost_turn := 0\<rparr>"
      1
      "\<lparr>orig_pos = pos_at (Fin 0), pos = [], element_offset = 1,
        lost_plane = Plane_no_plane, lost_turn = 0\<rparr>"
      "pos_at (Fin 0)"]
  by (simp add: concrete_defs tracker_defs ringpass_at_def track_ringpass_def ringpass_body_def
      numeral_3_eq_3)

text \<open>
  The claim as stated promises that nothing is appended after a failing pass method. Where
  the coordinates are not finite the loss branch is taken first and appends a NaN-filled
  coordinate, also with the vacuum chamber off.
\<close>

theorem passmethod_failure_appends_counterexample:
  "track_elementpass identity_library (untagged_element ''e1'' 1) (pos_at NaN)
     (ring_of False [untagged_element ''e1'' 1]) = (passmethod_not_defined, pos_at NaN) \<and>
   pos (start_at NaN) = [] \<and>
   track_linepass identity_library (ring_of False [untagged_element ''e1'' 1]) False (start_at NaN)
   = Some (passmethod_not_defined,
       \<lparr>orig_pos = pos_at NaN, pos = [nan_pos], element_offset = 0, lost_plane = Plane_x\<rparr>)"
  by (simp add: concrete_defs tracker_defs)

subsection \<open>The recorded trajectory\<close>

text \<open>The walk stops at one element only.\<close>

lemma linepass_at_prefix:
  "linepass_at pms acc traj k st0 = Some st \<Longrightarrow> i < k \<Longrightarrow>
   \<exists>a b. linepass_at pms acc traj i st0 = Some a \<and> linepass_body pms acc traj i a = Some (Inr b)"
proof (induction k arbitrary: st)
  case 0
  then show ?case by simp
next
  case (Suc k)
  from Suc.prems(1) obtain st' where a: "linepass_at pms acc traj k st0 = Some st'"
    and b: "linepass_body pms acc traj k st' = Some (Inr st)"
    unfolding linepass_at_Suc by blast
  show ?case
  proof (cases "i = k")
    case True
    with a b show ?thesis by blast
  next
    case False
    with Suc.prems(2) have "i < k" by simp
    with Suc.IH[OF a] show ?thesis by blast
  qed
qed

lemma lost_after_pass_stops:
  assumes "lost_after_pass pms acc st"
  shows "linepass_body pms acc traj i st \<noteq> Some (Inr st')"
  using assms
  by (auto simp: linepass_body_def lost_after_pass_def Let_def split: if_splits prod.splits)

lemma stop_unique:
  assumes "linepass_at pms acc traj k st0 = Some st"
    and "\<And>st'. linepass_body pms acc traj k st \<noteq> Some (Inr st')"
    and "linepass_at pms acc traj i st0 = Some sti"
    and "\<And>st'. linepass_body pms acc traj i sti \<noteq> Some (Inr st')"
  shows "i = k" and "sti = st"
proof -
  have "\<not> i < k"
    using linepass_at_prefix[OF assms(1), of i] assms(3,4) by auto
  moreover have "\<not> k < i"
    using linepass_at_prefix[OF assms(3), of k] assms(1,2) by auto
  ultimately show "i = k" by simp
  with assms(1,3) show "sti = st" by simp
qed

text \<open>
  With the trajectory flag and an output that was empty on entry: when the loop starts
  iteration \<open>k\<close> the output holds the entrances of the elements before \<open>k\<close>, followed by
  NaN-filled coordinates up to the length of the lattice.
\<close>

lemma trajectory_invariant:
  assumes "linepass_at pms acc True k st0 = Some st" and "pos st0 = []"
  shows "length (pos st) = length (lattice acc) \<and> k \<le> length (lattice acc) \<and>
         (\<forall>j<k. \<exists>stj. linepass_at pms acc True j st0 = Some stj \<and> pos st ! j = orig_pos stj) \<and>
         (\<forall>j. k \<le> j \<and> j < length (lattice acc) \<longrightarrow> pos st ! j = nan_pos)"
  using assms(1)
proof (induction k arbitrary: st)
  case 0
  then show ?case using assms(2) by (auto simp: linepass_at_0 linepass_prefill_def Let_def)
next
  case (Suc k)
  from Suc.prems obtain st' where a: "linepass_at pms acc True k st0 = Some st'"
    and b: "linepass_body pms acc True k st' = Some (Inr st)"
    unfolding linepass_at_Suc by blast
  note ih = Suc.IH[OF a]
  have room: "k < length (pos st')" using linepass_body_Inr(4)[OF b] by simp
  have upd: "pos st = (pos st')[k := orig_pos st']"
    using linepass_body_Inr(5)[OF b] by (simp add: entrance_recorded_def)
  have len: "length (pos st) = length (lattice acc)" using upd ih by simp
  have bound: "Suc k \<le> length (lattice acc)" using room ih by simp
  have rec: "\<exists>stj. linepass_at pms acc True j st0 = Some stj \<and> pos st ! j = orig_pos stj"
    if "j < Suc k" for j
  proof (cases "j = k")
    case True
    then show ?thesis using a upd room by simp
  next
    case False
    with that have "j < k" by simp
    then show ?thesis using ih upd by auto
  qed
  have rest: "pos st ! j = nan_pos" if "Suc k \<le> j \<and> j < length (lattice acc)" for j
    using that ih upd by simp
  show ?case using len bound rec rest by blast
qed

lemma trajectory_loop:
  assumes empty: "pos st0 = []"
    and start: "length (lattice acc) = 0 \<or> element_offset st0 < length (lattice acc)"
  shows "linepass_at pms acc True k st0 = Some st \<Longrightarrow> k + n = length (lattice acc) \<Longrightarrow>
    \<exists>status st'. linepass_loop pms acc True k n st = Some (status, st') \<and>
      ((\<forall>i sti. i < length (lattice acc) \<and> linepass_at pms acc True i st0 = Some sti \<longrightarrow>
          fst (track_elementpass pms (lattice acc ! element_offset sti) (orig_pos sti) acc) = success \<and>
          \<not> lost_after_pass pms acc sti) \<longrightarrow> status = success) \<and>
      (status = success \<longrightarrow>
         length (pos st') = length (lattice acc) + 1 \<and> last (pos st') = orig_pos st' \<and>
         (\<forall>j<length (lattice acc). \<exists>stj.
            linepass_at pms acc True j st0 = Some stj \<and> pos st' ! j = orig_pos stj)) \<and>
      (\<forall>i sti. i < length (lattice acc) \<and> linepass_at pms acc True i st0 = Some sti \<and>
          lost_after_pass pms acc sti \<longrightarrow>
          status \<noteq> success \<and>
          length (pos st') = length (lattice acc) + 1 \<and> last (pos st') = nan_pos \<and>
          (\<forall>j\<le>i. \<exists>stj. linepass_at pms acc True j st0 = Some stj \<and> pos st' ! j = orig_pos stj) \<and>
          (\<forall>j. i < j \<and> j < length (lattice acc) \<longrightarrow> pos st' ! j = nan_pos))"
proof (induction n arbitrary: k st)
  case 0
  note inv = trajectory_invariant[OF "0.prems"(1) empty]
  have kN: "k = length (lattice acc)" using "0.prems"(2) by simp
  have nolost: "\<not> lost_after_pass pms acc sti"
    if "i < length (lattice acc)" and "linepass_at pms acc True i st0 = Some sti" for i sti
  proof -
    from linepass_at_prefix[OF "0.prems"(1), of i] that kN
    obtain b where "linepass_body pms acc True i sti = Some (Inr b)" by auto
    then show ?thesis using lost_after_pass_stops by blast
  qed
  have entries: "\<exists>stj. linepass_at pms acc True j st0 = Some stj \<and>
      (pos st @ [orig_pos st]) ! j = orig_pos stj" if "j < length (lattice acc)" for j
    using inv that kN by (auto simp: nth_append)
  show ?case using inv nolost entries by auto
next
  case (Suc n)
  note inv = trajectory_invariant[OF Suc.prems(1) empty]
  have kN: "k < length (lattice acc)" using Suc.prems(2) by simp
  then have st0: "element_offset st0 < length (lattice acc)" using start by auto
  have off: "element_offset st < length (lattice acc)"
    using Suc.prems(1) st0 by (rule linepass_at_offset)
  have room: "k < length (pos st)" using inv kN by simp
  obtain status p where ep:
    "track_elementpass pms (lattice acc ! element_offset st) (orig_pos st) acc = (status, p)"
    by (cases "track_elementpass pms (lattice acc ! element_offset st) (orig_pos st) acc")
  note body = linepass_body_eval[OF off _ ep, of True k, OF room]
  let ?el = "lattice acc ! element_offset st"
  let ?rec = "(pos st)[k := orig_pos st]"
  have lostdef: "lost_after_pass pms acc st \<longleftrightarrow> lost_x acc ?el p \<or> lost_y acc ?el p"
    using ep by (simp add: lost_after_pass_def Let_def)
  have recorded: "\<exists>stj. linepass_at pms acc True j st0 = Some stj \<and> (?rec @ ys) ! j = orig_pos stj"
    if "j \<le> k" for j ys
  proof (cases "j = k")
    case True
    then show ?thesis using Suc.prems(1) room by (simp add: nth_append)
  next
    case False
    with that have "j < k" by simp
    then show ?thesis using inv room by (auto simp: nth_append)
  qed
  have filler: "(?rec @ ys) ! j = nan_pos" if "k < j \<and> j < length (lattice acc)" for j ys
    using that inv by (simp add: nth_append)
  show ?case
  proof (cases "lost_after_pass pms acc st \<or> status \<noteq> success")
    case True
    then have stop: "\<And>st'. linepass_body pms acc True k st \<noteq> Some (Inr st')"
      unfolding body lostdef by (auto simp: Let_def)
    have only: "i = k \<and> sti = st"
      if "linepass_at pms acc True i st0 = Some sti" and "lost_after_pass pms acc sti" for i sti
      using stop_unique[OF Suc.prems(1) stop that(1)] lost_after_pass_stops[OF that(2)] by blast
    have dirty: "\<not> (\<forall>i sti. i < length (lattice acc) \<and> linepass_at pms acc True i st0 = Some sti \<longrightarrow>
          fst (track_elementpass pms (lattice acc ! element_offset sti) (orig_pos sti) acc) = success \<and>
          \<not> lost_after_pass pms acc sti)"
      using True kN Suc.prems(1) ep by (metis fst_conv)
    show ?thesis
    proof (cases "lost_after_pass pms acc st")
      case True
      define pl where "pl = (if lost_x acc ?el p then Plane_x else Plane_y)"
      from True have res: "linepass_loop pms acc True k (Suc n) st =
          Some (if status = success then particle_lost else status,
                st\<lparr>orig_pos := p, pos := ?rec @ [nan_pos], lost_plane := pl\<rparr>)"
        unfolding lostdef pl_def by (auto simp: body Let_def entrance_recorded_def)
      show ?thesis
        unfolding res using dirty only recorded[of _ "[nan_pos]"] filler[of _ "[nan_pos]"] inv
        by (auto simp del: nth_list_update)
    next
      case False
      with \<open>lost_after_pass pms acc st \<or> status \<noteq> success\<close> have fail: "status \<noteq> success" by simp
      have res: "linepass_loop pms acc True k (Suc n) st =
          Some (status, st\<lparr>orig_pos := p, pos := ?rec\<rparr>)"
        using False fail unfolding lostdef by (simp add: body Let_def entrance_recorded_def)
      show ?thesis
        unfolding res using dirty only False fail by auto
    qed
  next
    case False
    then have go: "linepass_body pms acc True k st =
        Some (Inr (st\<lparr>orig_pos := p, pos := ?rec,
                     element_offset := (element_offset st + 1) mod length (lattice acc)\<rparr>))"
      unfolding lostdef by (simp add: body Let_def entrance_recorded_def)
    let ?next = "st\<lparr>orig_pos := p, pos := ?rec,
                     element_offset := (element_offset st + 1) mod length (lattice acc)\<rparr>"
    have at: "linepass_at pms acc True (Suc k) st0 = Some ?next"
      unfolding linepass_at_Suc using Suc.prems(1) go by blast
    have "Suc k + n = length (lattice acc)" using Suc.prems(2) by simp
    from Suc.IH[OF at this] show ?thesis by (simp add: go)
  qed
qed

text \<open>
  Claim C2, as amended. Take a lattice of \<open>N\<close> elements, an output that is empty on entry
  and a starting offset inside the lattice; call element \<open>i\<close> of the walk the element of
  iteration \<open>i\<close>, which is element \<open>(offset + i) mod N\<close> of the lattice. \<^verbatim>\<open>track_linepass\<close>
  with the trajectory flag returns. When no loss occurs, that is when the pass method of
  every element of the walk succeeds and leaves coordinates that pass the loss check, it
  returns \<open>success\<close> and the output has \<open>N + 1\<close> entries: entry \<open>j < N\<close> is the coordinate
  at the entrance of element \<open>j\<close> of the walk, before its map is applied, and the last
  entry is the final coordinate. The output has that shape whenever the status is
  \<open>success\<close>. When the particle is lost at element \<open>i\<close> of the walk the status is not
  \<open>success\<close> and the output has \<open>N + 1\<close> entries as well: the entrances of the elements
  \<open>0\<close> to \<open>i\<close> of the walk, NaN-filled coordinates at the places \<open>i + 1\<close> to \<open>N - 1\<close>, and
  a NaN-filled last entry.
\<close>

theorem linepass_trajectory_length:
  assumes "pos st0 = []"
    and "length (lattice acc) = 0 \<or> element_offset st0 < length (lattice acc)"
  shows "\<exists>status st'. track_linepass pms acc True st0 = Some (status, st') \<and>
      ((\<forall>i sti. i < length (lattice acc) \<and> linepass_at pms acc True i st0 = Some sti \<longrightarrow>
          fst (track_elementpass pms (lattice acc ! element_offset sti) (orig_pos sti) acc) = success \<and>
          \<not> lost_after_pass pms acc sti) \<longrightarrow>
       status = success \<and>
       length (pos st') = length (lattice acc) + 1 \<and> last (pos st') = orig_pos st' \<and>
       (\<forall>j<length (lattice acc). \<exists>stj.
          linepass_at pms acc True j st0 = Some stj \<and>
          element_offset stj = (element_offset st0 + j) mod length (lattice acc) \<and>
          pos st' ! j = orig_pos stj)) \<and>
      (status = success \<longrightarrow>
         length (pos st') = length (lattice acc) + 1 \<and> last (pos st') = orig_pos st' \<and>
         (\<forall>j<length (lattice acc). \<exists>stj.
            linepass_at pms acc True j st0 = Some stj \<and>
            element_offset stj = (element_offset st0 + j) mod length (lattice acc) \<and>
            pos st' ! j = orig_pos stj)) \<and>
      (\<forall>i sti. i < length (lattice acc) \<and> linepass_at pms acc True i st0 = Some sti \<and>
          lost_after_pass pms acc sti \<longrightarrow>
          status \<noteq> success \<and>
          element_offset sti = (element_offset st0 + i) mod length (lattice acc) \<and>
          length (pos st') = length (lattice acc) + 1 \<and> last (pos st') = nan_pos \<and>
          (\<forall>j\<le>i. \<exists>stj. linepass_at pms acc True j st0 = Some stj \<and>
             element_offset stj = (element_offset st0 + j) mod length (lattice acc) \<and>
             pos st' ! j = orig_pos stj) \<and>
          (\<forall>j. i < j \<and> j < length (lattice acc) \<longrightarrow> pos st' ! j = nan_pos))"
proof -
  let ?N = "length (lattice acc)"
  let ?clean = "\<forall>i sti. i < ?N \<and> linepass_at pms acc True i st0 = Some sti \<longrightarrow>
          fst (track_elementpass pms (lattice acc ! element_offset sti) (orig_pos sti) acc) = success \<and>
          \<not> lost_after_pass pms acc sti"
  have "\<exists>status st'. linepass_loop pms acc True 0 ?N (linepass_prefill acc True st0) = Some (status, st') \<and>
      (?clean \<longrightarrow> status = success) \<and>
      (status = success \<longrightarrow>
         length (pos st') = ?N + 1 \<and> last (pos st') = orig_pos st' \<and>
         (\<forall>j<?N. \<exists>stj. linepass_at pms acc True j st0 = Some stj \<and> pos st' ! j = orig_pos stj)) \<and>
      (\<forall>i sti. i < ?N \<and> linepass_at pms acc True i st0 = Some sti \<and>
          lost_after_pass pms acc sti \<longrightarrow>
          status \<noteq> success \<and>
          length (pos st') = ?N + 1 \<and> last (pos st') = nan_pos \<and>
          (\<forall>j\<le>i. \<exists>stj. linepass_at pms acc True j st0 = Some stj \<and> pos st' ! j = orig_pos stj) \<and>
          (\<forall>j. i < j \<and> j < ?N \<longrightarrow> pos st' ! j = nan_pos))"
    by (rule trajectory_loop[OF assms]) (simp_all add: linepass_at_0)
  then obtain status st' where all:
    "linepass_loop pms acc True 0 ?N (linepass_prefill acc True st0) = Some (status, st') \<and>
      (?clean \<longrightarrow> status = success) \<and>
      (status = success \<longrightarrow>
         length (pos st') = ?N + 1 \<and> last (pos st') = orig_pos st' \<and>
         (\<forall>j<?N. \<exists>stj. linepass_at pms acc True j st0 = Some stj \<and> pos st' ! j = orig_pos stj)) \<and>
      (\<forall>i sti. i < ?N \<and> linepass_at pms acc True i st0 = Some sti \<and>
          lost_after_pass pms acc sti \<longrightarrow>
          status \<noteq> success \<and>
          length (pos st') = ?N + 1 \<and> last (pos st') = nan_pos \<and>
          (\<forall>j\<le>i. \<exists>stj. linepass_at pms acc True j st0 = Some stj \<and> pos st' ! j = orig_pos stj) \<and>
          (\<forall>j. i < j \<and> j < ?N \<longrightarrow> pos st' ! j = nan_pos))"
    by (elim exE)
  have
    run: "track_linepass pms acc True st0 = Some (status, st')"
    and clean: "?clean \<Longrightarrow> status = success"
    and shape: "status = success \<Longrightarrow>
         length (pos st') = ?N + 1 \<and> last (pos st') = orig_pos st' \<and>
         (\<forall>j<?N. \<exists>stj. linepass_at pms acc True j st0 = Some stj \<and> pos st' ! j = orig_pos stj)"
    and loss: "\<And>i sti. i < ?N \<Longrightarrow> linepass_at pms acc True i st0 = Some sti \<Longrightarrow>
          lost_after_pass pms acc sti \<Longrightarrow>
          status \<noteq> success \<and>
          length (pos st') = ?N + 1 \<and> last (pos st') = nan_pos \<and>
          (\<forall>j\<le>i. \<exists>stj. linepass_at pms acc True j st0 = Some stj \<and> pos st' ! j = orig_pos stj) \<and>
          (\<forall>j. i < j \<and> j < ?N \<longrightarrow> pos st' ! j = nan_pos)"
    unfolding track_linepass_def
    using conjunct1[OF all] conjunct1[OF conjunct2[OF all]]
      conjunct1[OF conjunct2[OF conjunct2[OF all]]]
      spec[OF spec[OF conjunct2[OF conjunct2[OF conjunct2[OF all]]]]]
    by (simp, simp, simp, simp)
  have off: "element_offset stj = (element_offset st0 + j) mod ?N"
    if "linepass_at pms acc True j st0 = Some stj" and "j < ?N" for j stj
    using linepass_at_offset_eq[OF that(1)] assms(2) that(2) by auto
  have shape': "length (pos st') = ?N + 1 \<and> last (pos st') = orig_pos st' \<and>
         (\<forall>j<?N. \<exists>stj. linepass_at pms acc True j st0 = Some stj \<and>
            element_offset stj = (element_offset st0 + j) mod ?N \<and> pos st' ! j = orig_pos stj)"
    if "status = success"
    using shape[OF that] off by blast
  have loss': "status \<noteq> success \<and>
          element_offset sti = (element_offset st0 + i) mod ?N \<and>
          length (pos st') = ?N + 1 \<and> last (pos st') = nan_pos \<and>
          (\<forall>j\<le>i. \<exists>stj. linepass_at pms acc True j st0 = Some stj \<and>
             element_offset stj = (element_offset st0 + j) mod ?N \<and> pos st' ! j = orig_pos stj) \<and>
          (\<forall>j. i < j \<and> j < ?N \<longrightarrow> pos st' ! j = nan_pos)"
    if "i < ?N" and "linepass_at pms acc True i st0 = Some sti" and "lost_after_pass pms acc sti"
    for i sti
  proof -
    have "\<exists>stj. linepass_at pms acc True j st0 = Some stj \<and>
             element_offset stj = (element_offset st0 + j) mod ?N \<and> pos st' ! j = orig_pos stj"
      if "j \<le> i" for j
    proof -
      from loss[OF \<open>i < ?N\<close> \<open>linepass_at pms acc True i st0 = Some sti\<close> \<open>lost_after_pass pms acc sti\<close>] that
      obtain stj where a: "linepass_at pms acc True j st0 = Some stj" and b: "pos st' ! j = orig_pos stj"
        by blast
      have "j < ?N" using that \<open>i < ?N\<close> by simp
      from off[OF a this] a b show ?thesis by blast
    qed
    then show ?thesis
      using loss[OF that] off[OF that(2,1)] by blast
  qed
  show ?thesis
  proof (intro exI[of _ status] exI[of _ st'] conjI)
    show "track_linepass pms acc True st0 = Some (status, st')" by (rule run)
  next
    show "?clean \<longrightarrow> status = success \<and>
       length (pos st') = ?N + 1 \<and> last (pos st') = orig_pos st' \<and>
       (\<forall>j<?N. \<exists>stj. linepass_at pms acc True j st0 = Some stj \<and>
          element_offset stj = (element_offset st0 + j) mod ?N \<and> pos st' ! j = orig_pos stj)"
    proof
      assume c: ?clean
      have "status = success" using c by (rule clean)
      then show "status = success \<and>
         length (pos st') = ?N + 1 \<and> last (pos st') = orig_pos st' \<and>
         (\<forall>j<?N. \<exists>stj. linepass_at pms acc True j st0 = Some stj \<and>
            element_offset stj = (element_offset st0 + j) mod ?N \<and> pos st' ! j = orig_pos stj)"
        using shape' by simp
    qed
  next
    show "status = success \<longrightarrow>
       length (pos st') = ?N + 1 \<and> last (pos st') = orig_pos st' \<and>
       (\<forall>j<?N. \<exists>stj. linepass_at pms acc True j st0 = Some stj \<and>
          element_offset stj = (element_offset st0 + j) mod ?N \<and> pos st' ! j = orig_pos stj)"
      using shape' by simp
  next
    show "\<forall>i sti. i < ?N \<and> linepass_at pms acc True i st0 = Some sti \<and>
          lost_after_pass pms acc sti \<longrightarrow>
          status \<noteq> success \<and>
          element_offset sti = (element_offset st0 + i) mod ?N \<and>
          length (pos st') = ?N + 1 \<and> last (pos st') = nan_pos \<and>
          (\<forall>j\<le>i. \<exists>stj. linepass_at pms acc True j st0 = Some stj \<and>
             element_offset stj = (element_offset st0 + j) mod ?N \<and> pos st' ! j = orig_pos stj) \<and>
          (\<forall>j. i < j \<and> j < ?N \<longrightarrow> pos st' ! j = nan_pos)"
    proof (intro allI impI)
      fix i sti
      assume h: "i < ?N \<and> linepass_at pms acc True i st0 = Some sti \<and> lost_after_pass pms acc sti"
      show "status \<noteq> success \<and>
          element_offset sti = (element_offset st0 + i) mod ?N \<and>
          length (pos st') = ?N + 1 \<and> last (pos st') = nan_pos \<and>
          (\<forall>j\<le>i. \<exists>stj. linepass_at pms acc True j st0 = Some stj \<and>
             element_offset stj = (element_offset st0 + j) mod ?N \<and> pos st' ! j = orig_pos stj) \<and>
          (\<forall>j. i < j \<and> j < ?N \<longrightarrow> pos st' ! j = nan_pos)"
        by (rule loss') (simp_all add: h)
    qed
  qed
qed

text \<open>
  Two instances on a lattice of three markers with apertures 2, 1 and 1. A particle at
  \<open>rx = 1/2\<close> passes the three markers: no pass method fails, no coordinate fails the loss
  check, and the walk returns \<open>success\<close> with four entries. A particle at \<open>rx = 3/2\<close> is lost
  at the second marker.
\<close>

theorem linepass_trajectory_length_witness:
  "pos (start_at (Fin (1/2))) = [] \<and>
   element_offset (start_at (Fin (1/2)))
     < length (lattice (ring_of True [marker_with_aperture ''m1'' 2, marker_with_aperture ''m2'' 1,
         marker_with_aperture ''m3'' 1])) \<and>
   linepass_at identity_library
     (ring_of True [marker_with_aperture ''m1'' 2, marker_with_aperture ''m2'' 1, marker_with_aperture ''m3'' 1])
     True 0 (start_at (Fin (1/2)))
     = Some \<lparr>orig_pos = pos_at (Fin (1/2)), pos = [nan_pos, nan_pos, nan_pos],
              element_offset = 0, lost_plane = Plane_no_plane\<rparr> \<and>
   linepass_at identity_library
     (ring_of True [marker_with_aperture ''m1'' 2, marker_with_aperture ''m2'' 1, marker_with_aperture ''m3'' 1])
     True 1 (start_at (Fin (1/2)))
     = Some \<lparr>orig_pos = pos_at (Fin (1/2)), pos = [pos_at (Fin (1/2)), nan_pos, nan_pos],
              element_offset = 1, lost_plane = Plane_no_plane\<rparr> \<and>
   linepass_at identity_library
     (ring_of True [marker_with_aperture ''m1'' 2, marker_with_aperture ''m2'' 1, marker_with_aperture ''m3'' 1])
     True 2 (start_at (Fin (1/2)))
     = Some \<lparr>orig_pos = pos_at (Fin (1/2)), pos = [pos_at (Fin (1/2)), pos_at (Fin (1/2)), nan_pos],
              element_offset = 2, lost_plane = Plane_no_plane\<rparr> \<and>
   track_elementpass identity_library (marker_with_aperture ''m1'' 2) (pos_at (Fin (1/2)))
     (ring_of True [marker_with_aperture ''m1'' 2, marker_with_aperture ''m2'' 1, marker_with_aperture ''m3'' 1])
     = (success, pos_at (Fin (1/2))) \<and>
   track_elementpass identity_library (marker_with_aperture ''m2'' 1) (pos_at (Fin (1/2)))
     (ring_of True [marker_with_aperture ''m1'' 2, marker_with_aperture ''m2'' 1, marker_with_aperture ''m3'' 1])
     = (success, pos_at (Fin (1/2))) \<and>
   track_elementpass identity_library (marker_with_aperture ''m3'' 1) (pos_at (Fin (1/2)))
     (ring_of True [marker_with_aperture ''m1'' 2, marker_with_aperture ''m2'' 1, marker_with_aperture ''m3'' 1])
     = (success, pos_at (Fin (1/2))) \<and>
   track_linepass identity_library
     (ring_of True [marker_with_aperture ''m1'' 2, marker_with_aperture ''m2'' 1, marker_with_aperture ''m3'' 1])
     True (start_at (Fin (1/2)))
     = Some (success,
         \<lparr>orig_pos = pos_at (Fin (1/2)),
          pos = [pos_at (Fin (1/2)), pos_at (Fin (1/2)), pos_at (Fin (1/2)), pos_at (Fin (1/2))],
          element_offset = 0, lost_plane = Plane_no_plane\<rparr>) \<and>
   pos (start_at (Fin (3/2))) = [] \<and>
   linepass_at identity_library
     (ring_of True [marker_with_aperture ''m1'' 2, marker_with_aperture ''m2'' 1, marker_with_aperture ''m3'' 1])
     True 1 (start_at (Fin (3/2)))
     = Some \<lparr>orig_pos = pos_at (Fin (3/2)), pos = [pos_at (Fin (3/2)), nan_pos, nan_pos],
              element_offset = 1, lost_plane = Plane_no_plane\<rparr> \<and>
   lost_after_pass identity_library
     (ring_of True [marker_with_aperture ''m1'' 2, marker_with_aperture ''m2'' 1, marker_with_aperture ''m3'' 1])
     \<lparr>orig_pos = pos_at (Fin (3/2)), pos = [pos_at (Fin (3/2)), nan_pos, nan_pos],
      element_offset = 1, lost_plane = Plane_no_plane\<rparr> \<and>
   track_linepass identity_library
     (ring_of True [marker_with_aperture ''m1'' 2, marker_with_aperture ''m2'' 1, marker_with_aperture ''m3'' 1])
     True (start_at (Fin (3/2)))
     = Some (particle_lost,
         \<lparr>orig_pos = pos_at (Fin (3/2)),
          pos = [pos_at (Fin (3/2)), pos_at (Fin (3/2)), nan_pos, nan_pos],
          element_offset = 1, lost_plane = Plane_x\<rparr>)"
proof -
  let ?A = "ring_of True [marker_with_aperture ''m1'' 2, marker_with_aperture ''m2'' 1,
    marker_with_aperture ''m3'' 1]"
  let ?s = "start_at (Fin (1/2))"
  let ?sa = "\<lparr>orig_pos = pos_at (Fin (1/2)), pos = [nan_pos, nan_pos, nan_pos],
              element_offset = 0, lost_plane = Plane_no_plane\<rparr>"
  let ?sb = "\<lparr>orig_pos = pos_at (Fin (1/2)), pos = [pos_at (Fin (1/2)), nan_pos, nan_pos],
              element_offset = 1, lost_plane = Plane_no_plane\<rparr>"
  let ?sc = "\<lparr>orig_pos = pos_at (Fin (1/2)), pos = [pos_at (Fin (1/2)), pos_at (Fin (1/2)), nan_pos],
              element_offset = 2, lost_plane = Plane_no_plane\<rparr>"
  have g1: "pos ?s = []"
    by (simp add: start_at_def)
  have g2: "element_offset ?s < length (lattice ?A)"
    by (simp add: start_at_def ring_of_def)
  have N: "length (lattice ?A) = 3"
    by (simp add: ring_of_def)
  have c0: "linepass_at identity_library ?A True 0 ?s = Some ?sa"
    by (simp add: concrete_defs tracker_defs)
  have c1: "linepass_at identity_library ?A True 1 ?s = Some ?sb"
    by (simp add: concrete_defs tracker_defs)
  have c2: "linepass_at identity_library ?A True 2 ?s = Some ?sc"
    by (simp add: concrete_defs tracker_defs numeral_2_eq_2)
  have p0: "track_elementpass identity_library (marker_with_aperture ''m1'' 2) (pos_at (Fin (1/2))) ?A
      = (success, pos_at (Fin (1/2)))"
    by (simp add: concrete_defs tracker_defs)
  have p1: "track_elementpass identity_library (marker_with_aperture ''m2'' 1) (pos_at (Fin (1/2))) ?A
      = (success, pos_at (Fin (1/2)))"
    by (simp add: concrete_defs tracker_defs)
  have p2: "track_elementpass identity_library (marker_with_aperture ''m3'' 1) (pos_at (Fin (1/2))) ?A
      = (success, pos_at (Fin (1/2)))"
    by (simp add: concrete_defs tracker_defs)
  have d0: "fst (track_elementpass identity_library (lattice ?A ! element_offset ?sa) (orig_pos ?sa) ?A)
      = success \<and> \<not> lost_after_pass identity_library ?A ?sa"
    by (simp add: concrete_defs tracker_defs lost_after_pass_def)
  have d1: "fst (track_elementpass identity_library (lattice ?A ! element_offset ?sb) (orig_pos ?sb) ?A)
      = success \<and> \<not> lost_after_pass identity_library ?A ?sb"
    by (simp add: concrete_defs tracker_defs lost_after_pass_def)
  have d2: "fst (track_elementpass identity_library (lattice ?A ! element_offset ?sc) (orig_pos ?sc) ?A)
      = success \<and> \<not> lost_after_pass identity_library ?A ?sc"
    by (simp add: concrete_defs tracker_defs lost_after_pass_def)
  have clean: "\<forall>i sti. i < length (lattice ?A) \<and> linepass_at identity_library ?A True i ?s = Some sti \<longrightarrow>
      fst (track_elementpass identity_library (lattice ?A ! element_offset sti) (orig_pos sti) ?A) = success \<and>
      \<not> lost_after_pass identity_library ?A sti"
  proof (intro allI impI)
    fix i sti
    assume h: "i < length (lattice ?A) \<and> linepass_at identity_library ?A True i ?s = Some sti"
    then have "i = 0 \<or> i = 1 \<or> i = 2" unfolding N by arith
    then show "fst (track_elementpass identity_library (lattice ?A ! element_offset sti) (orig_pos sti) ?A)
        = success \<and> \<not> lost_after_pass identity_library ?A sti"
    proof (elim disjE)
      assume "i = 0"
      with h c0 have "sti = ?sa" by simp
      then show ?thesis using d0 by simp
    next
      assume "i = 1"
      with h c1 have "sti = ?sb" by simp
      then show ?thesis using d1 by simp
    next
      assume "i = 2"
      with h c2 have "sti = ?sc" by simp
      then show ?thesis using d2 by simp
    qed
  qed
  from linepass_trajectory_length[of ?s ?A identity_library] g1 g2 clean
  obtain st' where run: "track_linepass identity_library ?A True ?s = Some (success, st')"
    and len: "length (pos st') = length (lattice ?A) + 1"
    and exit: "last (pos st') = orig_pos st'"
    by blast
  have e4: "track_linepass identity_library ?A True ?s
     = Some (success,
         \<lparr>orig_pos = pos_at (Fin (1/2)),
          pos = [pos_at (Fin (1/2)), pos_at (Fin (1/2)), pos_at (Fin (1/2)), pos_at (Fin (1/2))],
          element_offset = 0, lost_plane = Plane_no_plane\<rparr>)"
    by code_simp
  have h1: "pos (start_at (Fin (3/2))) = []"
    by (simp add: start_at_def)
  have e1: "linepass_at identity_library ?A True 1 (start_at (Fin (3/2)))
     = Some \<lparr>orig_pos = pos_at (Fin (3/2)), pos = [pos_at (Fin (3/2)), nan_pos, nan_pos],
              element_offset = 1, lost_plane = Plane_no_plane\<rparr>"
    by (simp add: concrete_defs tracker_defs)
  have e2: "lost_after_pass identity_library ?A
     \<lparr>orig_pos = pos_at (Fin (3/2)), pos = [pos_at (Fin (3/2)), nan_pos, nan_pos],
      element_offset = 1, lost_plane = Plane_no_plane\<rparr>"
    by (simp add: concrete_defs tracker_defs lost_after_pass_def)
  have e3: "track_linepass identity_library ?A True (start_at (Fin (3/2)))
     = Some (particle_lost,
         \<lparr>orig_pos = pos_at (Fin (3/2)),
          pos = [pos_at (Fin (3/2)), pos_at (Fin (3/2)), nan_pos, nan_pos],
          element_offset = 1, lost_plane = Plane_x\<rparr>)"
    by code_simp
  from run g1 g2 c0 c1 c2 p0 p1 p2 e4 h1 e1 e2 e3 show ?thesis by blast
qed

text \<open>
  The claim as stated bounds the length of the output by \<open>i + 1\<close> when the particle is
  lost at element \<open>i\<close>. On three markers of aperture 1 a particle at \<open>rx = 3/2\<close> is lost at
  the first element and the output has four entries, more than \<open>i + 1\<close> whether the elements
  are counted from 0 or from 1.
\<close>

theorem linepass_trajectory_length_counterexample:
  "linepass_at identity_library
     (ring_of True [marker_with_aperture ''m1'' 1, marker_with_aperture ''m2'' 1,
        marker_with_aperture ''m3'' 1])
     True 0 (start_at (Fin (3/2)))
     = Some \<lparr>orig_pos = pos_at (Fin (3/2)), pos = [nan_pos, nan_pos, nan_pos],
              element_offset = 0, lost_plane = Plane_no_plane\<rparr> \<and>
   lost_after_pass identity_library
     (ring_of True [marker_with_aperture ''m1'' 1, marker_with_aperture ''m2'' 1,
        marker_with_aperture ''m3'' 1])
     \<lparr>orig_pos = pos_at (Fin (3/2)), pos = [nan_pos, nan_pos, nan_pos],
      element_offset = 0, lost_plane = Plane_no_plane\<rparr> \<and>
   track_linepass identity_library
     (ring_of True [marker_with_aperture ''m1'' 1, marker_with_aperture ''m2'' 1,
        marker_with_aperture ''m3'' 1])
     True (start_at (Fin (3/2)))
     = Some (particle_lost,
         \<lparr>orig_pos = pos_at (Fin (3/2)), pos = [pos_at (Fin (3/2)), nan_pos, nan_pos, nan_pos],
          element_offset = 0, lost_plane = Plane_x\<rparr>) \<and>
   \<not> length [pos_at (Fin (3/2)), nan_pos, nan_pos, nan_pos] \<le> 0 + 1 \<and>
   \<not> length [pos_at (Fin (3/2)), nan_pos, nan_pos, nan_pos] \<le> 1 + 1"
  by (simp add: concrete_defs tracker_defs lost_after_pass_def)

subsection \<open>An output that is not empty on entry\<close>

text \<open>
  Claim C3 fails on the code. The function does not clear the output, but with the
  trajectory flag it records the entrance of the element of iteration \<open>i\<close> at the place
  \<open>i\<close> counted from the start of the output (line 121), not from the start of the entries it
  appended. On one marker, with an output that holds the coordinate \<open>rx = 1/2\<close> on entry
  and a particle on the axis, that coordinate is overwritten by the entrance of the marker,
  and the NaN-filled entry appended for the marker stays in the output.
\<close>

theorem linepass_overwrites_output:
  "track_linepass identity_library (ring_of True [marker_with_aperture ''m1'' 1]) True
     \<lparr>orig_pos = pos_at (Fin 0), pos = [pos_at (Fin (1/2))], element_offset = 0,
      lost_plane = Plane_no_plane\<rparr>
   = Some (success,
       \<lparr>orig_pos = pos_at (Fin 0), pos = [pos_at (Fin 0), nan_pos, pos_at (Fin 0)],
        element_offset = 0, lost_plane = Plane_no_plane\<rparr>)"
  by (simp add: concrete_defs tracker_defs)

section \<open>Properties of the pass-method names\<close>

lemma pm_search_None: "pm_search ds name i = None \<longleftrightarrow> name \<notin> set ds"
  by (induction ds arbitrary: i) auto

lemma take_pm_dict: "take PassMethod_pm_nr_pms pm_dict = pm_dict"
  by (simp add: PassMethod_pm_nr_pms_def pm_dict_def)

text \<open>The state of the reader after a prefix of the file that it reads without returning.\<close>

lemma read_lines_append:
  "read_lines add_kt (ls1 @ ls2) st =
     (case read_prefix add_kt ls1 st of
        None \<Rightarrow> None
      | Some (Inl r) \<Rightarrow> Some r
      | Some (Inr st') \<Rightarrow> read_lines add_kt ls2 st')"
  by (induction ls1 arbitrary: st) (auto split: option.splits sum.splits)

text \<open>
  Claim C10. For a name that is not in the table of pass-method names,
  \<^verbatim>\<open>set_pass_method\<close> leaves the element as it is, its \<^verbatim>\<open>pass_method\<close> included, and has no
  way to signal an error. The flat-file reader, when it reaches a line \<^verbatim>\<open>pass_method\<close> with
  such a name, returns \<open>passmethod_not_defined\<close> whatever follows in the file.
\<close>

theorem set_pass_method_unknown:
  assumes "name \<notin> set pm_dict"
  shows "set_pass_method name e = e \<and>
         (read_prefix add_kt ls1 st0 = Some (Inr st) \<longrightarrow>
            read_lines add_kt (ls1 @ Key_pass_method name # ls2) st0 =
              Some (passmethod_not_defined, rd_accelerator st)) \<and>
         (read_prefix add_kt ls1
              \<lparr>rd_accelerator = acc\<lparr>lattice := []\<rparr>, rd_e = Element_init [] (Fin 0),
               found_hmin = False, found_vmin = False\<rparr> = Some (Inr st) \<longrightarrow>
            map_option fst (read_flat_file add_kt (Some (ls1 @ Key_pass_method name # ls2)) acc) =
              Some passmethod_not_defined)"
proof -
  have none: "pm_search pm_dict name 0 = None"
    using assms by (simp add: pm_search_None)
  have line: "read_pass_method add_kt name s =
      Inl (passmethod_not_defined, rd_accelerator s)" for s
    by (simp add: read_pass_method_def take_pm_dict none)
  show ?thesis
    by (simp add: set_pass_method_def none read_lines_append line read_flat_file_def
        read_flat_file_trackcpp_def)
qed

text \<open>An instance: the name \<^verbatim>\<open>quad_pass\<close> is not in the table.\<close>

theorem set_pass_method_unknown_witness:
  "''quad_pass'' \<notin> set pm_dict \<and>
   set_pass_method ''quad_pass'' (marker_with_aperture ''m1'' 1) = marker_with_aperture ''m1'' 1 \<and>
   read_prefix no_kicktables [Key_fam_name ''q1'']
     \<lparr>rd_accelerator = (ring_of False [])\<lparr>lattice := []\<rparr>, rd_e = Element_init [] (Fin 0),
      found_hmin = False, found_vmin = False\<rparr>
     = Some (Inr \<lparr>rd_accelerator = (ring_of False [])\<lparr>lattice := []\<rparr>,
            rd_e = (Element_init [] (Fin 0))\<lparr>fam_name := ''q1''\<rparr>,
            found_hmin = False, found_vmin = False\<rparr>) \<and>
   map_option fst (read_flat_file no_kicktables
          (Some [Key_fam_name ''q1'', Key_pass_method ''quad_pass'', Key_length (Fin 1)])
          (ring_of False [])) = Some passmethod_not_defined"
proof -
  have h: "''quad_pass'' \<notin> set pm_dict"
    by (simp add: pm_dict_def)
  have p: "read_prefix no_kicktables [Key_fam_name ''q1'']
     \<lparr>rd_accelerator = (ring_of False [])\<lparr>lattice := []\<rparr>, rd_e = Element_init [] (Fin 0),
      found_hmin = False, found_vmin = False\<rparr>
     = Some (Inr \<lparr>rd_accelerator = (ring_of False [])\<lparr>lattice := []\<rparr>,
            rd_e = (Element_init [] (Fin 0))\<lparr>fam_name := ''q1''\<rparr>,
            found_hmin = False, found_vmin = False\<rparr>)"
    by (simp add: Element_init_def)
  from set_pass_method_unknown[OF h, of "marker_with_aperture ''m1'' 1" no_kicktables
      "[Key_fam_name ''q1'']"
      "\<lparr>rd_accelerator = (ring_of False [])\<lparr>lattice := []\<rparr>, rd_e = Element_init [] (Fin 0),
        found_hmin = False, found_vmin = False\<rparr>"
      "\<lparr>rd_accelerator = (ring_of False [])\<lparr>lattice := []\<rparr>,
        rd_e = (Element_init [] (Fin 0))\<lparr>fam_name := ''q1''\<rparr>,
        found_hmin = False, found_vmin = False\<rparr>"
      "[Key_length (Fin 1)]" "ring_of False []"] h p
  show ?thesis by simp
qed

section \<open>Comparison of elements\<close>

text \<open>
  Claim C6, as amended. For an element whose pass method is the drift pass or the identity
  pass, \<^verbatim>\<open>operator==\<close> answers true exactly when the other element is the same object, or
  has the same family name, the same pass method, the same number of steps, and a length
  and four aperture bounds that compare equal as doubles. All remaining fields are ignored.
\<close>

theorem drift_identity_equality:
  assumes "pass_method a = PassMethod_pm_drift_pass \<or> pass_method a = PassMethod_pm_identity_pass"
  shows "Element_eq kicktable_ne same_object a b \<longleftrightarrow>
     same_object \<or>
     (fam_name a = fam_name b \<and> pass_method a = pass_method b \<and>
      \<not> dbl_ne (length_el a) (length_el b) \<and>
      \<not> dbl_ne (hmin a) (hmin b) \<and> \<not> dbl_ne (hmax a) (hmax b) \<and>
      \<not> dbl_ne (vmin a) (vmin b) \<and> \<not> dbl_ne (vmax a) (vmax b) \<and>
      nr_steps a = nr_steps b)"
  using assms by (auto simp: Element_eq_def)

text \<open>
  An instance: a marker equals a copy with another kick, another polynomial and a NaN
  strength, and differs from a copy with another number of steps.
\<close>

theorem drift_identity_equality_witness:
  "pass_method (marker_with_aperture ''m1'' 1) = PassMethod_pm_identity_pass \<and>
   Element_eq (\<lambda>a b. False) False (marker_with_aperture ''m1'' 1)
     ((marker_with_aperture ''m1'' 1)\<lparr>hkick := Fin 5, polynom_a := [], thin_KL := NaN\<rparr>) \<and>
   \<not> Element_eq (\<lambda>a b. False) False (marker_with_aperture ''m1'' 1)
     ((marker_with_aperture ''m1'' 1)\<lparr>nr_steps := 10\<rparr>)"
  using drift_identity_equality[of "marker_with_aperture ''m1'' 1" "\<lambda>a b. False" False
      "(marker_with_aperture ''m1'' 1)\<lparr>hkick := Fin 5, polynom_a := [], thin_KL := NaN\<rparr>"]
    drift_identity_equality[of "marker_with_aperture ''m1'' 1" "\<lambda>a b. False" False
      "(marker_with_aperture ''m1'' 1)\<lparr>nr_steps := 10\<rparr>"]
  by (simp add: marker_with_aperture_def Element_marker_def initialize_marker_def Element_init_def
      dbl_ne_def)

text \<open>
  The claim as stated makes the length and the aperture decide alone. Two drifts of the
  same length and aperture with different family names are not equal.
\<close>

theorem drift_equality_family_counterexample:
  "pass_method (Element_drift ''d1'' (Fin 1) :: unit Element) = PassMethod_pm_drift_pass \<and>
   pass_method (Element_drift ''d2'' (Fin 1) :: unit Element) = PassMethod_pm_drift_pass \<and>
   length_el (Element_drift ''d1'' (Fin 1) :: unit Element) = length_el (Element_drift ''d2'' (Fin 1) :: unit Element) \<and>
   hmin (Element_drift ''d1'' (Fin 1) :: unit Element) = hmin (Element_drift ''d2'' (Fin 1) :: unit Element) \<and>
   hmax (Element_drift ''d1'' (Fin 1) :: unit Element) = hmax (Element_drift ''d2'' (Fin 1) :: unit Element) \<and>
   vmin (Element_drift ''d1'' (Fin 1) :: unit Element) = vmin (Element_drift ''d2'' (Fin 1) :: unit Element) \<and>
   vmax (Element_drift ''d1'' (Fin 1) :: unit Element) = vmax (Element_drift ''d2'' (Fin 1) :: unit Element) \<and>
   \<not> Element_eq (\<lambda>a b. False) False (Element_drift ''d1'' (Fin 1) :: unit Element)
       (Element_drift ''d2'' (Fin 1))"
  by (simp add: Element_eq_def Element_drift_def initialize_drift_def Element_init_def)

section \<open>Polynomials of bends and of the elements that the reader commits\<close>

















text \<open>
  An order of 4294967295 beside a smaller one: \<^verbatim>\<open>o+1\<close> wraps around to 0, the polynomial is
  resized for the smaller order alone, and the store at 4294967295 is out of range.
\<close>

lemma read_polynom_out_of_range:
  "read_polynom [(4294967295, m), (0, m')] [Fin 0, Fin 0, Fin 0] = None"
  by (simp add: read_polynom_def vector_resize_def)




section \<open>Apertures in flat files\<close>

text \<open>
  Claim C8 fails on the code. The flag \<^verbatim>\<open>found_hmin\<close> is set by a line \<^verbatim>\<open>hmin\<close> and cleared
  by a line \<^verbatim>\<open>hmax\<close> only; a new element does not clear it. In a file whose first element
  gives \<^verbatim>\<open>hmin\<close> alone and whose second element gives \<^verbatim>\<open>hmax = 1\<close> alone, the second
  element keeps the default \<^verbatim>\<open>hmin\<close>, minus \<^verbatim>\<open>DBL_MAX\<close>, where the claim promises \<open>-1\<close>.
\<close>

theorem reader_aperture_flag_leaks:
  "map_option (\<lambda>r. map (\<lambda>e. (fam_name e, hmin e, hmax e)) (lattice (snd r)))
     (read_flat_file no_kicktables (Some two_apertures_file) (ring_of False []))
   = Some [(''a'', Fin (- 2), DBL_MAX), (''b'', dbl_neg DBL_MAX, Fin 1)]"
  by (simp add: read_flat_file_def read_flat_file_trackcpp_def two_apertures_file_def
      Element_init_def ring_of_def)

text \<open>
  Claim C9 fails on the code. The writer prints \<^verbatim>\<open>hmin\<close> only when it is not zero, and the
  reader, finding \<^verbatim>\<open>hmax\<close> without \<^verbatim>\<open>hmin\<close>, makes the aperture symmetric. A drift with the
  horizontal aperture \<open>[0, 1]\<close> is written without its \<^verbatim>\<open>hmin\<close> and read back with the
  aperture \<open>[-1, 1]\<close>, so the lattice read back does not compare equal to the one written.
\<close>

theorem flat_file_round_trip_fails:
  "write_flat_file True (ring_of False [half_open_drift]) =
     Some (success,
       Some [Header_energy (Fin 3000000000), Header_harmonic_number 864,
             Header_cavity_on ''false'', Header_radiation_on ''false'',
             Header_vchamber_on ''false'', Other_line 0, Comment_line, Key_fam_name ''d'',
             Key_length (Fin 1), Key_pass_method ''drift_pass'', Key_hmax (Fin 1),
             Key_vmin (Fin (- 1)), Key_vmax (Fin 1), Other_line 0]) \<and>
   map_option
     (\<lambda>r. map (\<lambda>e. (fam_name e, pass_method e, length_el e, nr_steps e, hmin e, hmax e, vmin e, vmax e))
        (lattice (snd r)))
     (read_flat_file no_kicktables
        (Some [Header_energy (Fin 3000000000), Header_harmonic_number 864,
             Header_cavity_on ''false'', Header_radiation_on ''false'',
             Header_vchamber_on ''false'', Other_line 0, Comment_line, Key_fam_name ''d'',
             Key_length (Fin 1), Key_pass_method ''drift_pass'', Key_hmax (Fin 1),
             Key_vmin (Fin (- 1)), Key_vmax (Fin 1), Other_line 0])
        (ring_of True []))
     = Some [(''d'', 1, Fin 1, 1, Fin (- 1), Fin 1, Fin (- 1), Fin 1)] \<and>
   hmin half_open_drift = Fin 0 \<and>
   map_option
     (\<lambda>r. list_all2 (Element_eq (\<lambda>a b. False) False)
        (lattice (ring_of False [half_open_drift])) (lattice (snd r)))
     (read_flat_file no_kicktables
        (Some [Header_energy (Fin 3000000000), Header_harmonic_number 864,
             Header_cavity_on ''false'', Header_radiation_on ''false'',
             Header_vchamber_on ''false'', Other_line 0, Comment_line, Key_fam_name ''d'',
             Key_length (Fin 1), Key_pass_method ''drift_pass'', Key_hmax (Fin 1),
             Key_vmin (Fin (- 1)), Key_vmax (Fin 1), Other_line 0])
        (ring_of True []))
     = Some False"
  by code_simp

end
